theory Spec2Isabelle
  imports Main "HOL-Library.Word" "HOL-Library.Signed_Division"
begin

unbundle bit_operations_syntax

section \<open>WeatherAPIRedis: a cache-aside weather proxy (main.go)\<close>

text \<open>
  The program is one HTTP handler, \<open>getWeather\<close>, and the start-up code \<open>main\<close>.
  The handler talks to three collaborators that are not part of the repository: a Redis
  server (through go-redis), the weather provider (through \<open>net/http\<close>) and
  \<open>encoding/json\<close>. Each of them is a parameter of the model:
  \<^item> the Redis server is a store of entries with an expiry instant, a clock, and the
    failure (if any) of the next read and of the next write;
  \<^item> the provider is a function from the request URL to a transport error or a response;
  \<^item> the JSON functions are given by the reading of a text, which the model takes as a
    parameter, and by the rule of \<open>encoding/json\<close> for numbers that do not fit
    \<open>float64\<close>.
  Go strings are byte strings (\<open>string\<close> is \<open>char list\<close>, a \<open>char\<close> is a byte); a Go
  \<open>error\<close> is represented by its message.
\<close>

subsection \<open>Values of type \<open>interface{}\<close> holding decoded JSON\<close>

text \<open>
  \<open>encoding/json\<close> decodes into \<open>interface{}\<close> as \<open>nil\<close>, \<open>bool\<close>, \<open>float64\<close>,
  \<open>string\<close>, \<open>[]interface{}\<close> or \<open>map[string]interface{}\<close>. A \<open>float64\<close> is kept as
  its 64 bits; the program never computes with it. \<open>fiber.Map\<close> is
  \<open>map[string]interface{}\<close>.
\<close>

datatype go_value =
    GoNil
  | GoBool bool
  | GoFloat64 "64 word"
  | GoString string
  | GoSlice "go_value list"
  | GoMap "(string \<times> go_value) list"

type_synonym go_error = string

text \<open>
  A \<open>float64\<close> is finite when its exponent bits are not all ones; the others are the
  infinities and the NaNs. \<open>json.Marshal\<close> accepts a value exactly when every
  \<open>float64\<close> in it is finite (\<open>supported\<close>). \<open>nil_out\<close> puts \<open>nil\<close> in the place of
  every other \<open>float64\<close>.
\<close>

definition finite_float64 :: "64 word \<Rightarrow> bool" where
  "finite_float64 f = (f AND 0x7FF0000000000000 \<noteq> 0x7FF0000000000000)"

fun supported :: "go_value \<Rightarrow> bool" where
  "supported GoNil = True"
| "supported (GoBool b) = True"
| "supported (GoFloat64 f) = finite_float64 f"
| "supported (GoString s) = True"
| "supported (GoSlice vs) = list_all supported vs"
| "supported (GoMap kvs) = list_all supported (map snd kvs)"

fun nil_out :: "go_value \<Rightarrow> go_value" where
  "nil_out GoNil = GoNil"
| "nil_out (GoBool b) = GoBool b"
| "nil_out (GoFloat64 f) = (if finite_float64 f then GoFloat64 f else GoNil)"
| "nil_out (GoString s) = GoString s"
| "nil_out (GoSlice vs) = GoSlice (map nil_out vs)"
| "nil_out (GoMap kvs) = GoMap (map (map_prod id nil_out) kvs)"

subsection \<open>\<open>fmt.Sprintf\<close> and \<open>strings.ToLower\<close>\<close>

text \<open>
  \<open>fmt.Sprintf\<close> for the verbs the program uses: \<open>%s\<close> on a string and \<open>%v\<close> on a
  string or an error, both of which print the text of the operand; \<open>%%\<close> prints a
  percent sign. A verb without an operand prints \<open>%!s(MISSING)\<close>, a percent sign at
  the end prints \<open>%!(NOVERB)\<close>, operands left over are listed after
  \<open>%!(EXTRA\<close>. Other verbs do not occur in main.go; the model copies them.
\<close>

fun extra_operands :: "string list \<Rightarrow> string" where
  "extra_operands [] = []"
| "extra_operands [a] = ''string='' @ a"
| "extra_operands (a # b # bs) = ''string='' @ a @ '', '' @ extra_operands (b # bs)"

fun Sprintf :: "string \<Rightarrow> string list \<Rightarrow> string" where
  "Sprintf [] [] = []"
| "Sprintf [] (a # as) = ''%!(EXTRA '' @ extra_operands (a # as) @ '')''"
| "Sprintf [c] as =
     (if c = CHR ''%'' then ''%!(NOVERB)'' @ Sprintf [] as else c # Sprintf [] as)"
| "Sprintf (c # d # fs) as =
     (if c = CHR ''%'' \<and> (d = CHR ''s'' \<or> d = CHR ''v'') then
        (case as of
           [] \<Rightarrow> [CHR ''%'', CHR ''!'', d] @ ''(MISSING)'' @ Sprintf fs []
         | a # as' \<Rightarrow> a @ Sprintf fs as')
      else if c = CHR ''%'' \<and> d = CHR ''%'' then CHR ''%'' # Sprintf fs as
      else c # Sprintf (d # fs) as)"

text \<open>
  \<open>strings.ToLower\<close>: a string of ASCII bytes is lowered byte by byte
  (\<open>'A'..'Z'\<close> plus \<open>'a' - 'A'\<close>); any other string goes through
  \<open>strings.Map(unicode.ToLower, s)\<close>, which depends on the Unicode tables of the Go
  release and is the parameter \<open>U\<close>.
\<close>

definition isASCII :: "string \<Rightarrow> bool" where
  "isASCII s = list_all (\<lambda>c. (of_char c :: nat) < 128) s"

definition isUpper :: "char \<Rightarrow> bool" where
  "isUpper c = (65 \<le> (of_char c :: nat) \<and> (of_char c :: nat) \<le> 90)"

definition isLower :: "char \<Rightarrow> bool" where
  "isLower c = (97 \<le> (of_char c :: nat) \<and> (of_char c :: nat) \<le> 122)"

definition lower_byte :: "char \<Rightarrow> char" where
  "lower_byte c = (if isUpper c then char_of ((of_char c :: nat) + 32) else c)"

definition strings_ToLower :: "(string \<Rightarrow> string) \<Rightarrow> string \<Rightarrow> string" where
  "strings_ToLower U s = (if isASCII s then map lower_byte s else U s)"

text \<open>
  Case-insensitive comparison of ASCII strings, stated without \<open>lower_byte\<close>: both
  strings are the same once every \<open>'a'..'z'\<close> is replaced by its capital.
\<close>

definition upper_byte :: "char \<Rightarrow> char" where
  "upper_byte c = (if isLower c then char_of ((of_char c :: nat) - 32) else c)"

definition equal_ignoring_case :: "string \<Rightarrow> string \<Rightarrow> bool" where
  "equal_ignoring_case c1 c2 = (map upper_byte c1 = map upper_byte c2)"

text \<open>
  Beyond ASCII, case-insensitive comparison is Unicode simple case folding, as
  \<open>strings.EqualFold\<close> has it. One class of that folding holds \<open>S\<close>, \<open>s\<close> and the
  long s, U+017F, whose UTF-8 bytes are \<open>C5 BF\<close>. \<open>simple_fold\<close> takes the letters of
  ASCII and the long s to the lowercase ASCII letter of their class and leaves every other
  byte; two strings with the same \<open>simple_fold\<close> are equal for \<open>strings.EqualFold\<close>.
  \<open>unicode.ToLower\<close> leaves the long s as it is: it is a lowercase letter.
\<close>

definition long_s :: string where
  "long_s = [CHR 0xC5, CHR 0xBF]"

fun simple_fold :: "string \<Rightarrow> string" where
  "simple_fold [] = []"
| "simple_fold [c] = [lower_byte c]"
| "simple_fold (c # d # cs) =
     (if c = CHR 0xC5 \<and> d = CHR 0xBF then CHR ''s'' # simple_fold cs
      else lower_byte c # simple_fold (d # cs))"

definition equal_under_folding :: "string \<Rightarrow> string \<Rightarrow> bool" where
  "equal_under_folding c1 c2 = (simple_fold c1 = simple_fold c2)"

subsection \<open>The Redis server behind \<open>redis.Client\<close>\<close>

text \<open>
  An entry is a value with the instant (in seconds) at which it expires; a key whose
  instant has been reached is absent. \<open>read_fault\<close> and \<open>write_fault\<close> are the errors
  (no connection, timeout) with which the next \<open>GET\<close> and the next \<open>SETEX\<close> fail.
  \<open>Get\<close> answers the sentinel \<open>redis.Nil\<close> for an absent key.
\<close>

datatype redis_error = redis_Nil | redis_Failure go_error

fun redis_Error :: "redis_error \<Rightarrow> string" where
  "redis_Error redis_Nil = ''redis: nil''"
| "redis_Error (redis_Failure e) = e"

record redis_server =
  entries :: "string \<rightharpoonup> string \<times> nat"
  clock :: nat
  read_fault :: "go_error option"
  write_fault :: "go_error option"

definition redis_Get :: "redis_server \<Rightarrow> string \<Rightarrow> redis_error + string" where
  "redis_Get r key =
     (case read_fault r of
        Some e \<Rightarrow> Inl (redis_Failure e)
      | None \<Rightarrow>
          (case entries r key of
             None \<Rightarrow> Inl redis_Nil
           | Some (v, expires) \<Rightarrow> if clock r < expires then Inr v else Inl redis_Nil))"

text \<open>
  \<open>time.Duration\<close> is an \<open>int64\<close> of nanoseconds. go-redis sends \<open>SETEX key seconds
  value\<close> with the seconds computed by its \<open>formatSec\<close>: a positive duration below one
  second is rounded up to one second, anything else is divided by \<open>time.Second\<close>
  (truncating). The server rejects an expiry that is not positive.
\<close>

type_synonym Duration = "64 word"

definition time_Second :: Duration where
  "time_Second = 1000000000"

definition formatSec :: "Duration \<Rightarrow> int" where
  "formatSec dur =
     (if 0 <s dur \<and> dur <s time_Second then 1 else sint dur sdiv sint time_Second)"

definition redis_SetEx ::
  "redis_server \<Rightarrow> string \<Rightarrow> string \<Rightarrow> Duration \<Rightarrow> redis_error option \<times> redis_server" where
  "redis_SetEx r key v expiration =
     (case write_fault r of
        Some e \<Rightarrow> (Some (redis_Failure e), r)
      | None \<Rightarrow>
          if formatSec expiration \<le> 0
          then (Some (redis_Failure ''ERR invalid expire time in 'setex' command''), r)
          else (None, r\<lparr>entries := (entries r)(key \<mapsto> (v, clock r + nat (formatSec expiration)))\<rparr>))"

subsection \<open>The provider, the JSON library and the observable trace\<close>

record http_Response =
  StatusCode :: int
  Body :: string

text \<open>
  \<open>http_Get\<close> is \<open>http.Get\<close>: a transport error or the response.
  \<open>read_text\<close> is the reading of a whole text as JSON and \<open>read_stream\<close> the reading
  of the first JSON value of a body: a syntax error, or the value, in which a number is
  what \<open>strconv.ParseFloat\<close> makes of it, an infinity when it is out of range.
  \<open>range_error\<close> is the error \<open>encoding/json\<close> has for such a number,
  \<open>text_of\<close> the JSON text of a value and \<open>unsupported_error\<close> the error of
  \<open>json.Marshal\<close> for a value it does not accept.
  \<open>unicode_ToLower\<close> is the non-ASCII path of \<open>strings.ToLower\<close>.
\<close>

record world =
  http_Get :: "string \<Rightarrow> go_error + http_Response"
  read_text :: "string \<Rightarrow> go_error + go_value"
  read_stream :: "string \<Rightarrow> go_error + go_value"
  range_error :: "go_value \<Rightarrow> go_error"
  text_of :: "go_value \<Rightarrow> string"
  unsupported_error :: "go_value \<Rightarrow> go_error"
  unicode_ToLower :: "string \<Rightarrow> string"

text \<open>
  What \<open>json.Unmarshal\<close> does with a text and a target of type \<open>interface{}\<close>:
  \<^item> the text is not JSON: the syntax check fails before anything is stored;
  \<^item> the text is JSON and decodes: the value is stored;
  \<^item> the text is JSON with a number outside \<open>float64\<close>: the value is stored with
    \<open>nil\<close> for that number, and the error is returned at the end.
\<close>

datatype unmarshal_result =
    InvalidJSON go_error
  | Unmarshalled go_value
  | OutOfRange go_error go_value

definition json_Unmarshal :: "world \<Rightarrow> string \<Rightarrow> unmarshal_result" where
  "json_Unmarshal w data =
     (case read_text w data of
        Inl err \<Rightarrow> InvalidJSON err
      | Inr v \<Rightarrow>
          if supported v then Unmarshalled v else OutOfRange (range_error w v) (nil_out v))"

text \<open>
  \<open>json.NewDecoder(body).Decode(&v)\<close>: an error, also for a number outside
  \<open>float64\<close>, or the value.
\<close>

definition json_Decode :: "world \<Rightarrow> string \<Rightarrow> go_error + go_value" where
  "json_Decode w body =
     (case read_stream w body of
        Inl err \<Rightarrow> Inl err
      | Inr v \<Rightarrow> if supported v then Inr v else Inl (range_error w v))"

text \<open>\<open>json.Marshal\<close>: the text of a value it accepts, an error for any other.\<close>

definition json_Marshal :: "world \<Rightarrow> go_value \<Rightarrow> go_error + string" where
  "json_Marshal w v = (if supported v then Inr (text_of w v) else Inl (unsupported_error w v))"

text \<open>
  Everything the handler does to the outside is recorded in order: the Redis commands
  it issues (also those that fail), the requests to the provider, the log lines, and the
  error it returns to Fiber when it returns one.
\<close>

datatype event =
    RedisGet string
  | RedisSetEx string string int
  | HttpGet string
  | LogLine string
  | ReturnError go_error

record state =
  redis :: redis_server
  trace :: "event list"

definition observe :: "event \<Rightarrow> state \<Rightarrow> state" where
  "observe e st = st\<lparr>trace := trace st @ [e]\<rparr>"

definition log_Println :: "string \<Rightarrow> state \<Rightarrow> state" where
  "log_Println msg st = observe (LogLine msg) st"

definition log_Printf :: "string \<Rightarrow> string list \<Rightarrow> state \<Rightarrow> state" where
  "log_Printf format as st = observe (LogLine (Sprintf format as)) st"

text \<open>
  \<open>json.Unmarshal(data, &v)\<close> with \<open>v\<close> of type \<open>interface{}\<close>: the error
  returned and the content of \<open>v\<close> afterwards.
\<close>

definition Unmarshal_into :: "world \<Rightarrow> string \<Rightarrow> go_value \<Rightarrow> go_error option \<times> go_value" where
  "Unmarshal_into w data v =
     (case json_Unmarshal w data of
        InvalidJSON e \<Rightarrow> (Some e, v)
      | Unmarshalled v' \<Rightarrow> (None, v')
      | OutOfRange e v' \<Rightarrow> (Some e, v'))"

subsection \<open>The response of a Fiber handler\<close>

text \<open>
  \<open>c.JSON(v)\<close> encodes \<open>v\<close> with the encoder of the app, which is \<open>json.Marshal\<close>:
  \<open>fiber.New()\<close> on line 67 has no configuration. When the encoder gives a text, the
  answer has the status set so far (200 unless \<open>c.Status\<close> was called) and the value as
  its JSON body. When the encoder fails, \<open>c.JSON\<close> returns the error and so does the
  handler; the default error handler of Fiber then answers with status 500 and the message
  of the error, sent as plain text, as the body.
\<close>

record response =
  status :: int
  body :: go_value

definition http_StatusOK :: int where
  "http_StatusOK = 200"

definition fiber_StatusInternalServerError :: int where
  "fiber_StatusInternalServerError = 500"

definition fiber_DefaultErrorHandler :: "go_error \<Rightarrow> response" where
  "fiber_DefaultErrorHandler err =
     \<lparr>status = fiber_StatusInternalServerError, body = GoString err\<rparr>"

definition c_Status_JSON :: "world \<Rightarrow> int \<Rightarrow> go_value \<Rightarrow> state \<Rightarrow> response \<times> state" where
  "c_Status_JSON w code v st =
     (case json_Marshal w v of
        Inl err \<Rightarrow> (fiber_DefaultErrorHandler err, observe (ReturnError err) st)
      | Inr raw \<Rightarrow> (\<lparr>status = code, body = v\<rparr>, st))"

definition c_JSON :: "world \<Rightarrow> go_value \<Rightarrow> state \<Rightarrow> response \<times> state" where
  "c_JSON w v st = c_Status_JSON w http_StatusOK v st"

definition fiber_Map :: "(string \<times> go_value) list \<Rightarrow> go_value" where
  "fiber_Map kvs = GoMap kvs"

subsection \<open>Configuration and the service\<close>

record Config =
  WeatherAPIKey :: string
  RedisHost :: string
  RedisPort :: string
  RedisPassword :: string

record redis_Options =
  Addr :: string
  Password :: string
  DB :: int

text \<open>
  \<open>redisClient\<close> is the client handle, given by the options it was created with; the
  server it talks to is the \<open>redis\<close> component of the state.
\<close>

record WeatherService =
  config :: Config
  redisClient :: redis_Options

subsection \<open>\<open>getWeather\<close>\<close>

text \<open>
  Three expressions of the handler have a name here: the cache key of line 82, the URL of
  line 98 and the expiry of line 121.
\<close>

definition cacheKey :: "world \<Rightarrow> string \<Rightarrow> string" where
  "cacheKey w city = Sprintf ''weather:%s'' [strings_ToLower (unicode_ToLower w) city]"

definition providerURL :: string where
  "providerURL =
     ''https://weather.visualcrossing.com/VisualCrossingWebServices/rest/services/timeline/%s?key=%s''"

definition requestURL :: "WeatherService \<Rightarrow> string \<Rightarrow> string" where
  "requestURL s city = Sprintf providerURL [city, WeatherAPIKey (config s)]"

definition cacheTTL :: Duration where
  "cacheTTL = (12 * 60 * 60) * time_Second"

text \<open>
  Lines 116 to 128 of \<open>getWeather\<close>: what the handler does with the decoded
  \<open>weatherData\<close>. \<open>key\<close> is the local variable \<open>cacheKey\<close>.
\<close>

definition getWeather_fetched :: "world \<Rightarrow> string \<Rightarrow> go_value \<Rightarrow> state \<Rightarrow> response \<times> state" where
  "getWeather_fetched w key weatherData st1 =
     (let st2 =
        (case json_Marshal w weatherData of
           Inl err \<Rightarrow> log_Printf ''Failed to marshal weather data: %v'' [err] st1
         | Inr weatherJSON \<Rightarrow>
             let st1' = observe (RedisSetEx key weatherJSON (formatSec cacheTTL)) st1
             in (case redis_SetEx (redis st1') key weatherJSON cacheTTL of
                   (Some err, r) \<Rightarrow>
                     log_Printf ''Failed to cache weather data: %v'' [redis_Error err]
                       (st1'\<lparr>redis := r\<rparr>)
                 | (None, r) \<Rightarrow> st1'\<lparr>redis := r\<rparr>))
      in c_JSON w weatherData (log_Println ''Serving from API'' st2))"

text \<open>
  Lines 97 to 128 of \<open>getWeather\<close>: what the handler does once the cache read has not
  returned a value.
\<close>

definition getWeather_miss ::
  "WeatherService \<Rightarrow> world \<Rightarrow> string \<Rightarrow> string \<Rightarrow> state \<Rightarrow> response \<times> state" where
  "getWeather_miss s w city key st =
     (let url = requestURL s city;
          st1 = observe (HttpGet url) st
      in case http_Get w url of
           Inl err \<Rightarrow>
             c_Status_JSON w fiber_StatusInternalServerError
               (fiber_Map [(''error'', GoString ''Failed to fetch weather data'')]) st1
         | Inr resp \<Rightarrow>
             if StatusCode resp \<noteq> http_StatusOK then
               c_Status_JSON w (StatusCode resp)
                 (fiber_Map [(''error'', GoString ''Invalid city or API error'')]) st1
             else
               (case json_Decode w (Body resp) of
                  Inl err \<Rightarrow>
                    c_Status_JSON w fiber_StatusInternalServerError
                      (fiber_Map [(''error'', GoString ''Failed to parse weather data'')]) st1
                | Inr weatherData \<Rightarrow> getWeather_fetched w key weatherData st1))"

definition getWeather :: "WeatherService \<Rightarrow> world \<Rightarrow> string \<Rightarrow> state \<Rightarrow> response \<times> state" where
  "getWeather s w city st =
     (let key = cacheKey w city;
          st1 = observe (RedisGet key) st
      in case redis_Get (redis st1) key of
           Inr cachedData \<Rightarrow>
             (let st2 = log_Println ''Serving from cache'' st1;
                  weatherData = snd (Unmarshal_into w cachedData GoNil)
              in c_JSON w weatherData st2)
         | Inl err \<Rightarrow>
             getWeather_miss s w city key
               (if err \<noteq> redis_Nil
                then log_Printf ''Redis error: %v'' [redis_Error err] st1
                else st1))"

text \<open>
  The state in which the rest of \<open>getWeather\<close> runs after a read that returned the
  error \<open>err\<close>: the read is on the trace, and so is the log line of lines 93 to 95.
\<close>

definition after_read :: "string \<Rightarrow> redis_error \<Rightarrow> state \<Rightarrow> state" where
  "after_read key err st =
     (if err \<noteq> redis_Nil
      then log_Printf ''Redis error: %v'' [redis_Error err] (observe (RedisGet key) st)
      else observe (RedisGet key) st)"

text \<open>\<open>d\<close> seconds pass on the clock of the Redis server.\<close>

definition elapse :: "nat \<Rightarrow> state \<Rightarrow> state" where
  "elapse d st = st\<lparr>redis := (redis st)\<lparr>clock := clock (redis st) + d\<rparr>\<rparr>"

text \<open>
  The events recorded between two states, and the requests to the provider and the cache
  writes among a list of events.
\<close>

fun is_HttpGet :: "event \<Rightarrow> bool" where
  "is_HttpGet (HttpGet u) = True"
| "is_HttpGet e = False"

fun is_RedisSetEx :: "event \<Rightarrow> bool" where
  "is_RedisSetEx (RedisSetEx k v n) = True"
| "is_RedisSetEx e = False"

definition new_events :: "state \<Rightarrow> state \<Rightarrow> event list" where
  "new_events st st' = drop (length (trace st)) (trace st')"

definition upstream_calls :: "event list \<Rightarrow> event list" where
  "upstream_calls evs = filter is_HttpGet evs"

definition cache_writes :: "event list \<Rightarrow> event list" where
  "cache_writes evs = filter is_RedisSetEx evs"

subsection \<open>\<open>main\<close>\<close>

text \<open>
  What \<open>main\<close> reads from outside: the variables of the \<open>.env\<close> file (\<open>None\<close> when
  \<open>godotenv.Load\<close> fails), the environment of the process, and the error (if any) of the
  first \<open>PING\<close> for given client options, and the error (if any) with which
  \<open>app.Listen\<close> returns for a given address when it cannot serve there.
  \<open>godotenv.Load\<close> sets the variables of the file that the environment does not have
  yet; \<open>os.Getenv\<close> reads an absent variable as the empty string. The process either
  stops in one of its three \<open>log.Fatal\<close> (lines 37, 58 and 77), or \<open>app.Listen\<close> serves
  the route on the address.
\<close>

record startup =
  dotenv :: "(string \<rightharpoonup> string) option"
  environ :: "string \<rightharpoonup> string"
  ping :: "redis_Options \<Rightarrow> go_error option"
  listen :: "string \<Rightarrow> go_error option"

datatype outcome =
    Fatal string
  | Listen WeatherService string

fun is_Fatal :: "outcome \<Rightarrow> bool" where
  "is_Fatal (Fatal msg) = True"
| "is_Fatal (Listen service addr) = False"

definition os_Getenv :: "(string \<rightharpoonup> string) \<Rightarrow> string \<Rightarrow> string" where
  "os_Getenv env name = (case env name of None \<Rightarrow> [] | Some v \<Rightarrow> v)"

definition godotenv_Load :: "startup \<Rightarrow> go_error + (string \<rightharpoonup> string)" where
  "godotenv_Load su =
     (case dotenv su of
        None \<Rightarrow> Inl ''open .env: no such file or directory''
      | Some file \<Rightarrow> Inr (file ++ environ su))"

text \<open>Whether a variable has a value once \<open>godotenv.Load\<close> has run.\<close>

definition is_set :: "startup \<Rightarrow> string \<Rightarrow> bool" where
  "is_set su name =
     (case godotenv_Load su of Inl err \<Rightarrow> False | Inr env \<Rightarrow> env name \<noteq> None)"

definition main :: "startup \<Rightarrow> outcome" where
  "main su =
     (case godotenv_Load su of
        Inl err \<Rightarrow> Fatal ''Error loading .env file''
      | Inr env \<Rightarrow>
          let cfg = \<lparr>WeatherAPIKey = os_Getenv env ''WEATHER_API_KEY'',
                     RedisHost = os_Getenv env ''REDIS_HOST'',
                     RedisPort = os_Getenv env ''REDIS_PORT'',
                     RedisPassword = os_Getenv env ''REDIS_PASSWORD''\<rparr>;
              opts = \<lparr>Addr = Sprintf ''%s:%s'' [RedisHost cfg, RedisPort cfg],
                      Password = RedisPassword cfg,
                      DB = 0\<rparr>
          in (case ping su opts of
                Some err \<Rightarrow> Fatal (Sprintf ''Failed to connect to Redis: %v'' [err])
              | None \<Rightarrow>
                  let service = \<lparr>config = cfg, redisClient = opts\<rparr>;
                      port = os_Getenv env ''PORT'';
                      port = (if port = [] then ''3000'' else port)
                  in (case listen su ('':'' @ port) of
                        Some err \<Rightarrow> Fatal err
                      | None \<Rightarrow> Listen service ('':'' @ port))))"

subsection \<open>Test doubles\<close>

text \<open>
  A provider, a JSON library and a Redis server for concrete runs: the provider answers
  every request alike, and the JSON library reads two documents: \<open>{"temp":72}\<close>
  (72 as a \<open>float64\<close> is \<open>0x4052000000000000\<close>) and \<open>{"temp":1e999}\<close>, whose
  number is out of range and is read as \<open>+Inf\<close>, \<open>0x7FF0000000000000\<close>. Its lowering
  of a string outside ASCII leaves the string as it is.
\<close>

definition boston_text :: string where
  \<open>boston_text = ''{"temp":72}''\<close>

definition boston_payload :: go_value where
  "boston_payload = GoMap [(''temp'', GoFloat64 0x4052000000000000)]"

definition huge_text :: string where
  \<open>huge_text = ''{"temp":1e999}''\<close>

definition stub_read :: "string \<Rightarrow> go_error + go_value" where
  "stub_read text =
     (if text = boston_text then Inr boston_payload
      else if text = huge_text then Inr (GoMap [(''temp'', GoFloat64 0x7FF0000000000000)])
      else Inl ''invalid character 'o' in literal null (expecting 'u')'')"

definition stub_text_of :: "go_value \<Rightarrow> string" where
  "stub_text_of v = (if v = boston_payload then boston_text else ''null'')"

definition upstream_answers :: "int \<Rightarrow> string \<Rightarrow> string \<Rightarrow> go_error + http_Response" where
  "upstream_answers code text url = Inr \<lparr>StatusCode = code, Body = text\<rparr>"

definition upstream_refused :: "string \<Rightarrow> go_error + http_Response" where
  "upstream_refused url = Inl ''dial tcp: connect: connection refused''"

definition stub_world :: "(string \<Rightarrow> go_error + http_Response) \<Rightarrow> world" where
  "stub_world upstream =
     \<lparr>http_Get = upstream, read_text = stub_read, read_stream = stub_read,
      range_error = (\<lambda>v. ''json: cannot unmarshal number 1e999 into Go value of type float64''),
      text_of = stub_text_of,
      unsupported_error = (\<lambda>v. ''json: unsupported value: NaN''),
      unicode_ToLower = id\<rparr>"


definition empty_redis :: redis_server where
  "empty_redis = \<lparr>entries = Map.empty, clock = 0, read_fault = None, write_fault = None\<rparr>"

definition start_state :: state where
  "start_state = \<lparr>redis = empty_redis, trace = []\<rparr>"

definition boston_cached :: state where
  "boston_cached =
     \<lparr>redis = empty_redis\<lparr>entries := [''weather:boston'' \<mapsto> (boston_text, 43200)], clock := 600\<rparr>,
      trace = []\<rparr>"

definition corrupt_cached :: state where
  "corrupt_cached =
     \<lparr>redis = empty_redis\<lparr>entries := [''weather:boston'' \<mapsto> (''not json'', 43200)], clock := 600\<rparr>,
      trace = []\<rparr>"

definition huge_cached :: state where
  "huge_cached =
     \<lparr>redis = empty_redis\<lparr>entries := [''weather:boston'' \<mapsto> (huge_text, 43200)], clock := 600\<rparr>,
      trace = []\<rparr>"

definition redis_down :: state where
  "redis_down =
     \<lparr>redis = empty_redis\<lparr>read_fault := Some ''dial tcp: i/o timeout'',
                             write_fault := Some ''dial tcp: i/o timeout''\<rparr>,
      trace = []\<rparr>"


definition demo_service :: WeatherService where
  "demo_service =
     \<lparr>config = \<lparr>WeatherAPIKey = ''K3Y'', RedisHost = ''localhost'', RedisPort = ''6379'',
                 RedisPassword = ''secret''\<rparr>,
      redisClient = \<lparr>Addr = ''localhost:6379'', Password = ''secret'', DB = 0\<rparr>\<rparr>"

text \<open>
  Four start-ups. In the first the \<open>.env\<close> file sets the three Redis variables and
  nothing else, the environment is empty, the server answers the first \<open>PING\<close> and the
  port is free. In the second the server does not answer. In the third everything is set
  but the port is taken. In the fourth there is no \<open>.env\<close> file.
\<close>

definition no_api_key :: startup where
  "no_api_key =
     \<lparr>dotenv = Some [''REDIS_HOST'' \<mapsto> ''localhost'', ''REDIS_PORT'' \<mapsto> ''6379'',
                      ''REDIS_PASSWORD'' \<mapsto> ''secret''],
      environ = Map.empty,
      ping = (\<lambda>opts. None),
      listen = (\<lambda>addr. None)\<rparr>"

definition redis_unreachable :: startup where
  "redis_unreachable =
     \<lparr>dotenv = Some [''WEATHER_API_KEY'' \<mapsto> ''K3Y''],
      environ = Map.empty,
      ping = (\<lambda>opts. Some ''dial tcp :0: connect: connection refused''),
      listen = (\<lambda>addr. None)\<rparr>"

definition port_taken :: startup where
  "port_taken =
     \<lparr>dotenv = Some [''WEATHER_API_KEY'' \<mapsto> ''K3Y'', ''REDIS_HOST'' \<mapsto> ''localhost'',
                      ''REDIS_PORT'' \<mapsto> ''6379'', ''REDIS_PASSWORD'' \<mapsto> ''secret''],
      environ = Map.empty,
      ping = (\<lambda>opts. None),
      listen = (\<lambda>addr. Some ''failed to listen: listen tcp4 :3000: bind: address already in use'')\<rparr>"

definition no_dotenv :: startup where
  "no_dotenv =
     \<lparr>dotenv = None, environ = Map.empty, ping = (\<lambda>opts. None), listen = (\<lambda>addr. None)\<rparr>"

section \<open>Properties\<close>

subsection \<open>Strings and durations\<close>

lemma Sprintf_weather: "Sprintf ''weather:%s'' [x] = ''weather:'' @ x"
  by simp

lemma Sprintf_providerURL:
  "Sprintf providerURL [city, k] =
     ''https://weather.visualcrossing.com/VisualCrossingWebServices/rest/services/timeline''
       @ ''/'' @ city @ ''?key='' @ k"
  by (simp add: providerURL_def)

lemma cacheKey_eq: "cacheKey w city = ''weather:'' @ strings_ToLower (unicode_ToLower w) city"
  by (simp add: cacheKey_def)

lemma lower_upper_byte: "lower_byte (upper_byte c) = lower_byte c"
  by (auto simp: lower_byte_def upper_byte_def isUpper_def isLower_def)

lemma equal_ignoring_case_lower:
  assumes "equal_ignoring_case c1 c2"
  shows "map lower_byte c1 = map lower_byte c2"
proof -
  have "map lower_byte (map upper_byte c1) = map lower_byte (map upper_byte c2)"
    using assms by (simp add: equal_ignoring_case_def)
  then show ?thesis
    by (simp add: comp_def lower_upper_byte)
qed

lemma cacheKey_Boston: "cacheKey w ''Boston'' = ''weather:boston''"
  by (simp add: cacheKey_def strings_ToLower_def isASCII_def lower_byte_def isUpper_def
      char_of_def bit_Suc_0_iff)

lemma cacheKey_BOSTON: "cacheKey w ''BOSTON'' = ''weather:boston''"
  by (simp add: cacheKey_def strings_ToLower_def isASCII_def lower_byte_def isUpper_def
      char_of_def bit_Suc_0_iff)

lemma cacheTTL_nanoseconds: "sint cacheTTL = 43200 * 1000000000"
  by (simp add: cacheTTL_def time_Second_def)

lemma formatSec_cacheTTL: "formatSec cacheTTL = 43200"
  by (simp add: formatSec_def cacheTTL_def time_Second_def word_sless_alt)

subsection \<open>The JSON library\<close>

lemma supported_nil_out: "supported (nil_out v)"
  by (induction v) (auto simp: list_all_iff)

lemma supported_Unmarshal_into: "supported (snd (Unmarshal_into w data GoNil))"
  by (simp add: Unmarshal_into_def json_Unmarshal_def supported_nil_out split: sum.splits)

lemma json_Decode_supported:
  assumes "json_Decode w b = Inr v"
  shows "supported v"
  using assms by (simp add: json_Decode_def split: sum.splits if_splits)


lemma json_Marshal_Inr:
  assumes "json_Marshal w v = Inr weatherJSON"
  shows "supported v"
  using assms by (simp add: json_Marshal_def split: if_splits)

lemma c_Status_JSON_supported:
  assumes "supported v"
  shows "c_Status_JSON w code v st = (\<lparr>status = code, body = v\<rparr>, st)"
  using assms by (simp add: c_Status_JSON_def json_Marshal_def)

lemma c_JSON_supported:
  assumes "supported v"
  shows "c_JSON w v st = (\<lparr>status = 200, body = v\<rparr>, st)"
  using assms by (simp add: c_JSON_def c_Status_JSON_supported http_StatusOK_def)

lemma c_Status_JSON_error_map:
  "c_Status_JSON w code (fiber_Map [(''error'', GoString msg)]) st =
     (\<lparr>status = code, body = GoMap [(''error'', GoString msg)]\<rparr>, st)"
  by (simp add: c_Status_JSON_supported fiber_Map_def)

subsection \<open>The branches of the handler\<close>

lemma redis_observe [simp]: "redis (observe e st) = redis st"
  by (simp add: observe_def)

lemma trace_observe [simp]: "trace (observe e st) = trace st @ [e]"
  by (simp add: observe_def)

lemma redis_after_read [simp]: "redis (after_read key err st) = redis st"
  by (simp add: after_read_def log_Printf_def)

lemma upstream_calls_after_read [simp]:
  "upstream_calls (trace (after_read key err st)) = upstream_calls (trace st)"
  by (simp add: after_read_def log_Printf_def upstream_calls_def)

lemma cache_writes_after_read [simp]:
  "cache_writes (trace (after_read key err st)) = cache_writes (trace st)"
  by (simp add: after_read_def log_Printf_def cache_writes_def)

lemma getWeather_hit:
  assumes "redis_Get (redis st) (cacheKey w city) = Inr cachedData"
  shows "getWeather s w city st =
    (\<lparr>status = 200, body = snd (Unmarshal_into w cachedData GoNil)\<rparr>,
     st\<lparr>trace := trace st @ [RedisGet (cacheKey w city), LogLine ''Serving from cache'']\<rparr>)"
  using assms
  by (simp add: getWeather_def Let_def observe_def log_Println_def
      c_JSON_supported supported_Unmarshal_into)

lemma getWeather_no_hit:
  assumes "redis_Get (redis st) (cacheKey w city) = Inl err"
  shows "getWeather s w city st =
    getWeather_miss s w city (cacheKey w city) (after_read (cacheKey w city) err st)"
  using assms by (simp add: getWeather_def Let_def after_read_def)

lemma miss_unreachable:
  assumes "http_Get w (requestURL s city) = Inl e"
  shows "getWeather_miss s w city key st =
    (\<lparr>status = 500, body = GoMap [(''error'', GoString ''Failed to fetch weather data'')]\<rparr>,
     observe (HttpGet (requestURL s city)) st)"
  using assms
  by (simp add: getWeather_miss_def Let_def c_Status_JSON_error_map
      fiber_StatusInternalServerError_def)

lemma miss_rejected:
  assumes "http_Get w (requestURL s city) = Inr resp" and "StatusCode resp \<noteq> 200"
  shows "getWeather_miss s w city key st =
    (\<lparr>status = StatusCode resp,
      body = GoMap [(''error'', GoString ''Invalid city or API error'')]\<rparr>,
     observe (HttpGet (requestURL s city)) st)"
  using assms
  by (simp add: getWeather_miss_def Let_def c_Status_JSON_error_map http_StatusOK_def)

lemma miss_malformed:
  assumes "http_Get w (requestURL s city) = Inr resp" and "StatusCode resp = 200"
    and "json_Decode w (Body resp) = Inl e"
  shows "getWeather_miss s w city key st =
    (\<lparr>status = 500, body = GoMap [(''error'', GoString ''Failed to parse weather data'')]\<rparr>,
     observe (HttpGet (requestURL s city)) st)"
  using assms
  by (simp add: getWeather_miss_def Let_def c_Status_JSON_error_map http_StatusOK_def
      fiber_StatusInternalServerError_def)

lemma miss_decoded:
  assumes "http_Get w (requestURL s city) = Inr resp" and "StatusCode resp = 200"
    and "json_Decode w (Body resp) = Inr payload"
  shows "getWeather_miss s w city key st =
    getWeather_fetched w key payload (observe (HttpGet (requestURL s city)) st)"
  using assms
  by (simp add: getWeather_miss_def Let_def http_StatusOK_def)

lemma fetched_marshal_fails:
  assumes "json_Marshal w weatherData = Inl e"
  shows "getWeather_fetched w key weatherData st =
    (\<lparr>status = 500, body = GoString e\<rparr>,
     st\<lparr>trace := trace st @ [LogLine (''Failed to marshal weather data: '' @ e),
            LogLine ''Serving from API'', ReturnError e]\<rparr>)"
  using assms
  by (simp add: getWeather_fetched_def Let_def c_JSON_def c_Status_JSON_def
      fiber_DefaultErrorHandler_def fiber_StatusInternalServerError_def
      log_Printf_def log_Println_def observe_def)

lemma fetched_write_fails:
  assumes "json_Marshal w payload = Inr weatherJSON"
    and "write_fault (redis st) = Some e"
  shows "getWeather_fetched w key payload st =
    (\<lparr>status = 200, body = payload\<rparr>,
     st\<lparr>trace := trace st @ [RedisSetEx key weatherJSON 43200,
            LogLine (''Failed to cache weather data: '' @ e), LogLine ''Serving from API'']\<rparr>)"
  using assms json_Marshal_Inr [OF assms(1)]
  by (simp add: getWeather_fetched_def Let_def c_JSON_supported redis_SetEx_def
      formatSec_cacheTTL log_Printf_def log_Println_def observe_def)

lemma fetched_write_ok:
  assumes "json_Marshal w payload = Inr weatherJSON"
    and "write_fault (redis st) = None"
  shows "getWeather_fetched w key payload st =
    (\<lparr>status = 200, body = payload\<rparr>,
     st\<lparr>redis := (redis st)\<lparr>entries :=
            (entries (redis st))(key \<mapsto> (weatherJSON, clock (redis st) + 43200))\<rparr>,
        trace := trace st @ [RedisSetEx key weatherJSON 43200, LogLine ''Serving from API'']\<rparr>)"
  using assms json_Marshal_Inr [OF assms(1)]
  by (simp add: getWeather_fetched_def Let_def c_JSON_supported redis_SetEx_def
      formatSec_cacheTTL log_Printf_def log_Println_def observe_def)

lemma miss_write_fails:
  assumes "http_Get w (requestURL s city) = Inr resp" and "StatusCode resp = 200"
    and "json_Decode w (Body resp) = Inr payload"
    and "json_Marshal w payload = Inr weatherJSON"
    and "write_fault (redis st) = Some e"
  shows "getWeather_miss s w city key st =
    (\<lparr>status = 200, body = payload\<rparr>,
     st\<lparr>trace := trace st @ [HttpGet (requestURL s city), RedisSetEx key weatherJSON 43200,
            LogLine (''Failed to cache weather data: '' @ e), LogLine ''Serving from API'']\<rparr>)"
  using assms
  by (simp add: miss_decoded fetched_write_fails [where e = e] observe_def)

lemma miss_write_ok:
  assumes "http_Get w (requestURL s city) = Inr resp" and "StatusCode resp = 200"
    and "json_Decode w (Body resp) = Inr payload"
    and "json_Marshal w payload = Inr weatherJSON"
    and "write_fault (redis st) = None"
  shows "getWeather_miss s w city key st =
    (\<lparr>status = 200, body = payload\<rparr>,
     st\<lparr>redis := (redis st)\<lparr>entries :=
            (entries (redis st))(key \<mapsto> (weatherJSON, clock (redis st) + 43200))\<rparr>,
        trace := trace st @ [HttpGet (requestURL s city), RedisSetEx key weatherJSON 43200,
            LogLine ''Serving from API'']\<rparr>)"
  using assms
  by (simp add: miss_decoded fetched_write_ok observe_def)

lemma new_events_append [simp]: "new_events st (st\<lparr>trace := trace st @ evs\<rparr>) = evs"
  by (simp add: new_events_def)

lemma new_events_append_redis [simp]:
  "new_events st (st\<lparr>redis := r, trace := trace st @ evs\<rparr>) = evs"
  by (simp add: new_events_def)

lemma new_events_observe [simp]: "new_events st (observe e st) = [e]"
  by (simp add: new_events_def)

lemma new_events_split:
  assumes "trace st1 = trace st @ pre" and "trace st2 = trace st1 @ evs"
  shows "new_events st st2 = pre @ new_events st1 st2"
  using assms by (simp add: new_events_def)

text \<open>The three ways through lines 116 to 128.\<close>

lemma fetched_cases:
  obtains (marshal_fails) e where "json_Marshal w v = Inl e"
  | (write_fails) weatherJSON e where "json_Marshal w v = Inr weatherJSON"
      and "write_fault (redis st) = Some e"
  | (write_ok) weatherJSON where "json_Marshal w v = Inr weatherJSON"
      and "write_fault (redis st) = None"
proof (cases "json_Marshal w v")
  case (Inl e)
  then show ?thesis by (rule marshal_fails)
next
  case (Inr weatherJSON)
  show ?thesis
  proof (cases "write_fault (redis st)")
    case None
    with Inr show ?thesis by (rule write_ok)
  next
    case (Some e)
    with Inr show ?thesis by (rule write_fails)
  qed
qed

lemma fetched_response_independent:
  "fst (getWeather_fetched w key v st) = fst (getWeather_fetched w key v st')"
proof (cases "json_Marshal w v")
  case (Inl e)
  then show ?thesis by (simp add: fetched_marshal_fails)
next
  case (Inr weatherJSON)
  then have "supported v" by (rule json_Marshal_Inr)
  then show ?thesis
    by (simp add: getWeather_fetched_def Let_def c_JSON_supported)
qed

lemma fetched_trace_extends:
  "\<exists>evs. trace (snd (getWeather_fetched w key v st)) = trace st @ evs"
proof (cases rule: fetched_cases [where w = w and v = v and st = st])
  case (marshal_fails e)
  then show ?thesis by (simp add: fetched_marshal_fails)
next
  case (write_fails weatherJSON e)
  then show ?thesis by (simp add: fetched_write_fails [where e = e])
next
  case (write_ok weatherJSON)
  then show ?thesis by (simp add: fetched_write_ok)
qed

lemma fetched_redis_independent:
  assumes "redis st = redis st'"
  shows "redis (snd (getWeather_fetched w key v st)) =
         redis (snd (getWeather_fetched w key v st'))"
proof (cases rule: fetched_cases [where w = w and v = v and st = st])
  case (marshal_fails e)
  then show ?thesis using assms by (simp add: fetched_marshal_fails)
next
  case (write_fails weatherJSON e)
  moreover from write_fails assms have "write_fault (redis st') = Some e" by simp
  ultimately show ?thesis
    using assms by (simp add: fetched_write_fails [where e = e])
next
  case (write_ok weatherJSON)
  moreover from write_ok assms have "write_fault (redis st') = None" by simp
  ultimately show ?thesis
    using assms by (simp add: fetched_write_ok)
qed

lemma fetched_new_events_independent:
  assumes "redis st = redis st'"
  shows "new_events st (snd (getWeather_fetched w key v st)) =
         new_events st' (snd (getWeather_fetched w key v st'))"
proof (cases rule: fetched_cases [where w = w and v = v and st = st])
  case (marshal_fails e)
  then show ?thesis by (simp add: fetched_marshal_fails)
next
  case (write_fails weatherJSON e)
  moreover from write_fails assms have "write_fault (redis st') = Some e" by simp
  ultimately show ?thesis
    by (simp add: fetched_write_fails [where e = e])
next
  case (write_ok weatherJSON)
  moreover from write_ok assms have "write_fault (redis st') = None" by simp
  ultimately show ?thesis
    by (simp add: fetched_write_ok)
qed

lemma fetched_upstream_calls:
  "upstream_calls (new_events st (snd (getWeather_fetched w key v st))) = []"
proof (cases rule: fetched_cases [where w = w and v = v and st = st])
  case (marshal_fails e)
  then show ?thesis by (simp add: fetched_marshal_fails upstream_calls_def)
next
  case (write_fails weatherJSON e)
  then show ?thesis by (simp add: fetched_write_fails [where e = e] upstream_calls_def)
next
  case (write_ok weatherJSON)
  then show ?thesis by (simp add: fetched_write_ok upstream_calls_def)
qed

text \<open>The four ways through lines 97 to 128.\<close>

lemma miss_cases:
  obtains (unreachable) e where "http_Get w (requestURL s city) = Inl e"
  | (rejected) resp where "http_Get w (requestURL s city) = Inr resp"
      and "StatusCode resp \<noteq> 200"
  | (malformed) resp e where "http_Get w (requestURL s city) = Inr resp"
      and "StatusCode resp = 200" and "json_Decode w (Body resp) = Inl e"
  | (decoded) resp payload where "http_Get w (requestURL s city) = Inr resp"
      and "StatusCode resp = 200" and "json_Decode w (Body resp) = Inr payload"
proof (cases "http_Get w (requestURL s city)")
  case (Inl e)
  then show ?thesis by (rule unreachable)
next
  case (Inr resp)
  show ?thesis
  proof (cases "StatusCode resp = 200")
    case False
    with Inr show ?thesis by (rule rejected)
  next
    case True
    show ?thesis
    proof (cases "json_Decode w (Body resp)")
      case (Inl e)
      with Inr True show ?thesis by (rule malformed)
    next
      case (Inr payload)
      with \<open>http_Get w (requestURL s city) = Inr resp\<close> True show ?thesis by (rule decoded)
    qed
  qed
qed

lemma miss_response_independent:
  "fst (getWeather_miss s w city key st) = fst (getWeather_miss s w city key st')"
proof (cases rule: miss_cases [where w = w and s = s and city = city])
  case (unreachable e)
  then show ?thesis by (simp add: miss_unreachable)
next
  case (rejected resp)
  then show ?thesis by (simp add: miss_rejected)
next
  case (malformed resp e)
  then show ?thesis by (simp add: miss_malformed)
next
  case (decoded resp payload)
  then show ?thesis
    by (simp add: miss_decoded) (rule fetched_response_independent)
qed

lemma miss_success_response:
  assumes "http_Get w (requestURL s city) = Inr resp" and "StatusCode resp = 200"
    and "json_Decode w (Body resp) = Inr payload"
  shows "fst (getWeather_miss s w city key st) = \<lparr>status = 200, body = payload\<rparr>"
  using assms json_Decode_supported [OF assms(3)]
  by (simp add: miss_decoded getWeather_fetched_def Let_def c_JSON_supported)

lemma miss_redis_independent:
  assumes "redis st = redis st'"
  shows "redis (snd (getWeather_miss s w city key st)) =
         redis (snd (getWeather_miss s w city key st'))"
proof (cases rule: miss_cases [where w = w and s = s and city = city])
  case (unreachable e)
  then show ?thesis using assms by (simp add: miss_unreachable)
next
  case (rejected resp)
  then show ?thesis using assms by (simp add: miss_rejected)
next
  case (malformed resp e)
  then show ?thesis using assms by (simp add: miss_malformed)
next
  case (decoded resp payload)
  then show ?thesis
    using assms by (simp add: miss_decoded) (rule fetched_redis_independent, simp)
qed

lemma miss_trace_extends:
  "\<exists>evs. trace (snd (getWeather_miss s w city key st)) = trace st @ evs"
proof (cases rule: miss_cases [where w = w and s = s and city = city])
  case (unreachable e)
  then show ?thesis by (simp add: miss_unreachable)
next
  case (rejected resp)
  then show ?thesis by (simp add: miss_rejected)
next
  case (malformed resp e)
  then show ?thesis by (simp add: miss_malformed)
next
  case (decoded resp payload)
  obtain evs where
    "trace (snd (getWeather_fetched w key payload (observe (HttpGet (requestURL s city)) st)))
       = trace (observe (HttpGet (requestURL s city)) st) @ evs"
    using fetched_trace_extends by blast
  with decoded show ?thesis by (simp add: miss_decoded)
qed

lemma miss_new_events:
  assumes "http_Get w (requestURL s city) = Inr resp" and "StatusCode resp = 200"
    and "json_Decode w (Body resp) = Inr payload"
  shows "new_events st (snd (getWeather_miss s w city key st)) =
     HttpGet (requestURL s city) #
       new_events (observe (HttpGet (requestURL s city)) st)
         (snd (getWeather_fetched w key payload (observe (HttpGet (requestURL s city)) st)))"
proof -
  define st1 where "st1 = observe (HttpGet (requestURL s city)) st"
  obtain evs where e: "trace (snd (getWeather_fetched w key payload st1)) = trace st1 @ evs"
    using fetched_trace_extends by blast
  have p: "trace st1 = trace st @ [HttpGet (requestURL s city)]"
    by (simp add: st1_def)
  show ?thesis
    using assms new_events_split [OF p e]
    by (simp add: miss_decoded st1_def)
qed

lemma miss_new_events_independent:
  assumes "redis st = redis st'"
  shows "new_events st (snd (getWeather_miss s w city key st)) =
         new_events st' (snd (getWeather_miss s w city key st'))"
proof (cases rule: miss_cases [where w = w and s = s and city = city])
  case (unreachable e)
  then show ?thesis by (simp add: miss_unreachable)
next
  case (rejected resp)
  then show ?thesis by (simp add: miss_rejected)
next
  case (malformed resp e)
  then show ?thesis by (simp add: miss_malformed)
next
  case (decoded resp payload)
  have "new_events (observe (HttpGet (requestURL s city)) st)
         (snd (getWeather_fetched w key payload (observe (HttpGet (requestURL s city)) st))) =
        new_events (observe (HttpGet (requestURL s city)) st')
         (snd (getWeather_fetched w key payload (observe (HttpGet (requestURL s city)) st')))"
    using assms by (intro fetched_new_events_independent) simp
  with decoded show ?thesis
    by (simp add: miss_new_events)
qed

lemma miss_upstream_calls:
  "upstream_calls (new_events st (snd (getWeather_miss s w city key st))) =
     [HttpGet (requestURL s city)]"
proof (cases rule: miss_cases [where w = w and s = s and city = city])
  case (unreachable e)
  then show ?thesis by (simp add: miss_unreachable upstream_calls_def)
next
  case (rejected resp)
  then show ?thesis by (simp add: miss_rejected upstream_calls_def)
next
  case (malformed resp e)
  then show ?thesis by (simp add: miss_malformed upstream_calls_def)
next
  case (decoded resp payload)
  have "upstream_calls (new_events (observe (HttpGet (requestURL s city)) st)
         (snd (getWeather_fetched w key payload (observe (HttpGet (requestURL s city)) st)))) = []"
    by (rule fetched_upstream_calls)
  with decoded show ?thesis
    by (simp add: miss_new_events upstream_calls_def)
qed

text \<open>What the test doubles answer.\<close>

lemma stub_Decode_boston: "json_Decode (stub_world u) boston_text = Inr boston_payload"
  by (simp add: json_Decode_def stub_world_def stub_read_def boston_payload_def
      finite_float64_def)

lemma stub_Marshal_boston: "json_Marshal (stub_world u) boston_payload = Inr boston_text"
  by (simp add: json_Marshal_def stub_world_def stub_text_of_def)
    (simp add: boston_payload_def finite_float64_def)

lemma stub_Unmarshal_boston:
  "json_Unmarshal (stub_world u) boston_text = Unmarshalled boston_payload"
  by (simp add: json_Unmarshal_def stub_world_def stub_read_def boston_payload_def
      finite_float64_def)

lemma stub_Unmarshal_not_json:
  "json_Unmarshal (stub_world u) ''not json'' =
     InvalidJSON ''invalid character 'o' in literal null (expecting 'u')''"
  by (simp add: json_Unmarshal_def stub_world_def stub_read_def boston_text_def huge_text_def)

lemma stub_Unmarshal_huge:
  "json_Unmarshal (stub_world u) huge_text =
     OutOfRange ''json: cannot unmarshal number 1e999 into Go value of type float64''
       (GoMap [(''temp'', GoNil)])"
  by (simp add: json_Unmarshal_def stub_world_def stub_read_def boston_text_def huge_text_def
      finite_float64_def)

subsection \<open>The cache key and the request URL\<close>

lemma simple_fold_ASCII:
  assumes "isASCII s"
  shows "simple_fold s = map lower_byte s"
  using assms
proof (induction s rule: simple_fold.induct)
  case 1
  show ?case by simp
next
  case (2 c)
  show ?case by simp
next
  case (3 c d cs)
  from "3.prems" have c: "c \<noteq> CHR 0xC5"
    by (auto simp: isASCII_def)
  from "3.prems" have "isASCII (d # cs)"
    by (simp add: isASCII_def)
  with "3.IH"(2) c show ?case
    by simp
qed

text \<open>
  Claim C2, as the code has it. The cache key of a city is \<open>weather:\<close> followed by
  \<open>strings.ToLower\<close> of the city. Hence two ASCII cities that are equal when the case of
  their letters is ignored have the same key, whether the comparison is made on the
  capitals or by folding. The empty city has the key \<open>weather:\<close>.
\<close>

theorem cache_key_is_prefix_and_lowercase_city:
  "cacheKey w city = ''weather:'' @ strings_ToLower (unicode_ToLower w) city
   \<and> (isASCII c1 \<and> isASCII c2 \<and> equal_ignoring_case c1 c2 \<longrightarrow> cacheKey w c1 = cacheKey w c2)
   \<and> (isASCII c1 \<and> isASCII c2 \<and> equal_under_folding c1 c2 \<longrightarrow> cacheKey w c1 = cacheKey w c2)
   \<and> cacheKey w [] = ''weather:''"
proof (intro conjI impI)
  show "cacheKey w city = ''weather:'' @ strings_ToLower (unicode_ToLower w) city"
    by (rule cacheKey_eq)
next
  assume a: "isASCII c1 \<and> isASCII c2 \<and> equal_ignoring_case c1 c2"
  then have "map lower_byte c1 = map lower_byte c2"
    by (simp add: equal_ignoring_case_lower)
  with a have "strings_ToLower (unicode_ToLower w) c1 = strings_ToLower (unicode_ToLower w) c2"
    by (simp add: strings_ToLower_def)
  then show "cacheKey w c1 = cacheKey w c2"
    by (simp add: cacheKey_eq)
next
  assume a: "isASCII c1 \<and> isASCII c2 \<and> equal_under_folding c1 c2"
  then have "simple_fold c1 = map lower_byte c1" and "simple_fold c2 = map lower_byte c2"
    by (simp_all add: simple_fold_ASCII)
  with a have "map lower_byte c1 = map lower_byte c2"
    by (simp add: equal_under_folding_def)
  with a have "strings_ToLower (unicode_ToLower w) c1 = strings_ToLower (unicode_ToLower w) c2"
    by (simp add: strings_ToLower_def)
  then show "cacheKey w c1 = cacheKey w c2"
    by (simp add: cacheKey_eq)
next
  show "cacheKey w [] = ''weather:''"
    by (simp add: cacheKey_eq strings_ToLower_def isASCII_def)
qed

theorem cache_key_is_prefix_and_lowercase_city_witness:
  "isASCII ''Boston'' \<and> isASCII ''BOSTON'' \<and> equal_ignoring_case ''Boston'' ''BOSTON''
   \<and> equal_under_folding ''Boston'' ''BOSTON''
   \<and> cacheKey (stub_world upstream_refused) ''Boston'' = ''weather:boston''
   \<and> cacheKey (stub_world upstream_refused) ''BOSTON'' = ''weather:boston''"
proof -
  have h: "isASCII ''Boston'' \<and> isASCII ''BOSTON'' \<and> equal_ignoring_case ''Boston'' ''BOSTON''"
    by (simp add: isASCII_def equal_ignoring_case_def upper_byte_def isLower_def
        char_of_def bit_Suc_0_iff)
  have f: "equal_under_folding ''Boston'' ''BOSTON''"
    by (simp add: equal_under_folding_def lower_byte_def isUpper_def
        char_of_def bit_Suc_0_iff)
  have k: "cacheKey (stub_world upstream_refused) ''Boston'' = ''weather:boston''"
    by (rule cacheKey_Boston)
  from h
    cache_key_is_prefix_and_lowercase_city
      [of "stub_world upstream_refused" "''Boston''" "''Boston''" "''BOSTON''"]
  have e: "cacheKey (stub_world upstream_refused) ''Boston''
       = cacheKey (stub_world upstream_refused) ''BOSTON''"
    by blast
  have k': "cacheKey (stub_world upstream_refused) ''BOSTON'' = ''weather:boston''"
    by (rule trans [OF e [symmetric] k])
  show ?thesis
    by (intro conjI h [THEN conjunct1] h [THEN conjunct2, THEN conjunct1]
        h [THEN conjunct2, THEN conjunct2] f k k')
qed

text \<open>
  The claim as the specification states it, for all city strings, fails: the long s and
  \<open>S\<close> are equal in a case-insensitive comparison, but \<open>strings.ToLower\<close> leaves the long
  s and takes \<open>S\<close> to \<open>s\<close>, so the two cities have different keys.
\<close>

theorem long_s_counterexample:
  "equal_under_folding long_s ''S''
   \<and> strings_ToLower (unicode_ToLower (stub_world upstream_refused)) long_s = long_s
   \<and> cacheKey (stub_world upstream_refused) long_s = ''weather:'' @ long_s
   \<and> cacheKey (stub_world upstream_refused) ''S'' = ''weather:s''
   \<and> cacheKey (stub_world upstream_refused) long_s \<noteq> cacheKey (stub_world upstream_refused) ''S''"
proof -
  have f: "equal_under_folding long_s ''S''"
    by (simp add: equal_under_folding_def long_s_def lower_byte_def isUpper_def
        char_of_def bit_Suc_0_iff)
  have l: "strings_ToLower (unicode_ToLower (stub_world upstream_refused)) long_s = long_s"
    by (simp add: strings_ToLower_def isASCII_def long_s_def stub_world_def)
  have k1: "cacheKey (stub_world upstream_refused) long_s = ''weather:'' @ long_s"
    by (simp only: cacheKey_eq l)
  have k2: "cacheKey (stub_world upstream_refused) ''S'' = ''weather:s''"
    by (simp add: cacheKey_eq strings_ToLower_def isASCII_def lower_byte_def isUpper_def
        char_of_def bit_Suc_0_iff)
  have n: "cacheKey (stub_world upstream_refused) long_s
      \<noteq> cacheKey (stub_world upstream_refused) ''S''"
    unfolding k1 k2 by (simp add: long_s_def)
  show ?thesis
    by (intro conjI f l k1 k2 n)
qed

text \<open>
  Claim C9. The URL requested from the provider is the base URL, a slash, the city as it
  came in the request (neither lowered nor escaped), \<open>?key=\<close> and the API key; it is
  the one request the handler sends when the cache read returned no value.
\<close>

theorem request_url_embeds_city_verbatim:
  "requestURL s city =
     ''https://weather.visualcrossing.com/VisualCrossingWebServices/rest/services/timeline''
       @ ''/'' @ city @ ''?key='' @ WeatherAPIKey (config s)
   \<and> upstream_calls (new_events st (snd (getWeather_miss s w city key st))) =
       [HttpGet (requestURL s city)]"
proof
  show "requestURL s city =
     ''https://weather.visualcrossing.com/VisualCrossingWebServices/rest/services/timeline''
       @ ''/'' @ city @ ''?key='' @ WeatherAPIKey (config s)"
    unfolding requestURL_def by (rule Sprintf_providerURL)
next
  show "upstream_calls (new_events st (snd (getWeather_miss s w city key st))) =
       [HttpGet (requestURL s city)]"
    by (rule miss_upstream_calls)
qed

subsection \<open>Cache hits\<close>

text \<open>
  Claim C1. When the cache read returns a value, the handler answers 200 with what
  \<open>json.Unmarshal\<close> made of the stored weatherJSON; all it does is the read and one log line:
  no request to the provider, no cache write, the server unchanged. In particular, after a
  request that filled the cache, a request for the same key less than 43200 seconds later
  (the read succeeding) sends nothing to the provider and answers from the stored weatherJSON.
\<close>

theorem cache_hit_returns_stored_value:
  "(redis_Get (redis st) (cacheKey w city) = Inr cachedData \<longrightarrow>
      getWeather s w city st =
        (\<lparr>status = 200, body = snd (Unmarshal_into w cachedData GoNil)\<rparr>,
         st\<lparr>trace := trace st @ [RedisGet (cacheKey w city), LogLine ''Serving from cache'']\<rparr>)
      \<and> (json_Unmarshal w cachedData = Unmarshalled v \<longrightarrow>
          body (fst (getWeather s w city st)) = v)
      \<and> upstream_calls (new_events st (snd (getWeather s w city st))) = []
      \<and> cache_writes (new_events st (snd (getWeather s w city st))) = []
      \<and> redis (snd (getWeather s w city st)) = redis st)
   \<and> (redis_Get (redis st) (cacheKey w city) = Inl redis_Nil
        \<and> http_Get w (requestURL s city) = Inr resp \<and> StatusCode resp = 200
        \<and> json_Decode w (Body resp) = Inr payload \<and> json_Marshal w payload = Inr weatherJSON
        \<and> read_fault (redis st) = None \<and> write_fault (redis st) = None
        \<and> d < 43200 \<and> cacheKey w city' = cacheKey w city \<longrightarrow>
      fst (getWeather s w city' (elapse d (snd (getWeather s w city st)))) =
        \<lparr>status = 200, body = snd (Unmarshal_into w weatherJSON GoNil)\<rparr>
      \<and> upstream_calls (new_events (elapse d (snd (getWeather s w city st)))
            (snd (getWeather s w city' (elapse d (snd (getWeather s w city st)))))) = [])"
proof (intro conjI impI)
  assume hit: "redis_Get (redis st) (cacheKey w city) = Inr cachedData"
  note r = getWeather_hit [OF hit, of s]
  show "getWeather s w city st =
        (\<lparr>status = 200, body = snd (Unmarshal_into w cachedData GoNil)\<rparr>,
         st\<lparr>trace := trace st @ [RedisGet (cacheKey w city), LogLine ''Serving from cache'']\<rparr>)"
    by (rule r)
  show "upstream_calls (new_events st (snd (getWeather s w city st))) = []"
    by (simp add: r new_events_def upstream_calls_def)
  show "cache_writes (new_events st (snd (getWeather s w city st))) = []"
    by (simp add: r new_events_def cache_writes_def)
  show "redis (snd (getWeather s w city st)) = redis st"
    by (simp add: r)
  assume "json_Unmarshal w cachedData = Unmarshalled v"
  then show "body (fst (getWeather s w city st)) = v"
    by (simp add: r Unmarshal_into_def)
next
  assume a: "redis_Get (redis st) (cacheKey w city) = Inl redis_Nil
        \<and> http_Get w (requestURL s city) = Inr resp \<and> StatusCode resp = 200
        \<and> json_Decode w (Body resp) = Inr payload \<and> json_Marshal w payload = Inr weatherJSON
        \<and> read_fault (redis st) = None \<and> write_fault (redis st) = None
        \<and> d < 43200 \<and> cacheKey w city' = cacheKey w city"
  define key where "key = cacheKey w city"
  define st0 where "st0 = after_read key redis_Nil st"
  define st1 where "st1 = elapse d (snd (getWeather s w city st))"
  have wf: "write_fault (redis st0) = None"
    using a by (simp add: st0_def)
  have first: "getWeather s w city st = getWeather_miss s w city key st0"
    using a by (simp add: getWeather_no_hit key_def st0_def)
  have filled: "snd (getWeather_miss s w city key st0) =
      st0\<lparr>redis := (redis st0)\<lparr>entries :=
            (entries (redis st0))(key \<mapsto> (weatherJSON, clock (redis st0) + 43200))\<rparr>,
        trace := trace st0 @ [HttpGet (requestURL s city), RedisSetEx key weatherJSON 43200,
            LogLine ''Serving from API'']\<rparr>"
    using a wf miss_write_ok [of w s city resp payload weatherJSON st0 key] by simp
  have stored: "redis (snd (getWeather s w city st)) =
      (redis st)\<lparr>entries :=
        (entries (redis st))(cacheKey w city \<mapsto> (weatherJSON, clock (redis st) + 43200))\<rparr>"
    unfolding first filled by (simp add: st0_def key_def)
  have read: "redis_Get (redis st1) (cacheKey w city') = Inr weatherJSON"
    using a by (simp add: st1_def stored elapse_def redis_Get_def)
  note r = getWeather_hit [OF read, of s]
  show "fst (getWeather s w city' (elapse d (snd (getWeather s w city st)))) =
        \<lparr>status = 200, body = snd (Unmarshal_into w weatherJSON GoNil)\<rparr>"
    using r by (simp add: st1_def)
  show "upstream_calls (new_events (elapse d (snd (getWeather s w city st)))
            (snd (getWeather s w city' (elapse d (snd (getWeather s w city st)))))) = []"
    using r by (simp add: st1_def new_events_def upstream_calls_def)
qed

theorem cache_hit_returns_stored_value_witness:
  "redis_Get (redis boston_cached) (cacheKey (stub_world upstream_refused) ''BOSTON'')
     = Inr boston_text
   \<and> getWeather demo_service (stub_world upstream_refused) ''BOSTON'' boston_cached =
       (\<lparr>status = 200, body = boston_payload\<rparr>,
        boston_cached\<lparr>trace := [RedisGet ''weather:boston'', LogLine ''Serving from cache'']\<rparr>)"
proof -
  have k: "cacheKey (stub_world upstream_refused) ''BOSTON'' = ''weather:boston''"
    by (rule cacheKey_BOSTON)
  have h: "redis_Get (redis boston_cached) (cacheKey (stub_world upstream_refused) ''BOSTON'')
     = Inr boston_text"
    unfolding k by (simp add: boston_cached_def empty_redis_def redis_Get_def)
  have u: "snd (Unmarshal_into (stub_world upstream_refused) boston_text GoNil) = boston_payload"
    by (simp add: Unmarshal_into_def stub_Unmarshal_boston)
  have t: "trace boston_cached = []"
    by (simp add: boston_cached_def)
  from h cache_hit_returns_stored_value
      [where st = boston_cached and w = "stub_world upstream_refused" and city = "''BOSTON''"
        and cachedData = boston_text and s = demo_service]
  have "getWeather demo_service (stub_world upstream_refused) ''BOSTON'' boston_cached =
        (\<lparr>status = 200,
          body = snd (Unmarshal_into (stub_world upstream_refused) boston_text GoNil)\<rparr>,
         boston_cached\<lparr>trace := trace boston_cached @
           [RedisGet (cacheKey (stub_world upstream_refused) ''BOSTON''),
            LogLine ''Serving from cache'']\<rparr>)"
    by blast
  then show ?thesis
    using h by (simp add: k u t)
qed

text \<open>
  Claim C8. When the cache read returns a text that is not JSON, the error of
  \<open>json.Unmarshal\<close> is dropped: the handler answers 200 with the body \<open>nil\<close> (JSON
  \<open>null\<close>), sends nothing to the provider and writes nothing to the cache. The error is
  dropped in the same way when the text is JSON with a number outside \<open>float64\<close>; the
  body is then what \<open>json.Unmarshal\<close> stored.
\<close>

theorem corrupt_cache_entry_answers_null:
  "(redis_Get (redis st) (cacheKey w city) = Inr cachedData
    \<and> json_Unmarshal w cachedData = InvalidJSON e \<longrightarrow>
      getWeather s w city st =
        (\<lparr>status = 200, body = GoNil\<rparr>,
         st\<lparr>trace := trace st @ [RedisGet (cacheKey w city), LogLine ''Serving from cache'']\<rparr>)
      \<and> upstream_calls (new_events st (snd (getWeather s w city st))) = []
      \<and> cache_writes (new_events st (snd (getWeather s w city st))) = []
      \<and> redis (snd (getWeather s w city st)) = redis st)
   \<and> (redis_Get (redis st) (cacheKey w city) = Inr cachedData
    \<and> json_Unmarshal w cachedData = OutOfRange e v \<longrightarrow>
      getWeather s w city st =
        (\<lparr>status = 200, body = v\<rparr>,
         st\<lparr>trace := trace st @ [RedisGet (cacheKey w city), LogLine ''Serving from cache'']\<rparr>))"
proof (intro conjI impI)
  assume a: "redis_Get (redis st) (cacheKey w city) = Inr cachedData
    \<and> json_Unmarshal w cachedData = InvalidJSON e"
  then have hit: "redis_Get (redis st) (cacheKey w city) = Inr cachedData"
    by simp
  have nil: "snd (Unmarshal_into w cachedData GoNil) = GoNil"
    using a by (simp add: Unmarshal_into_def)
  note r = getWeather_hit [OF hit, of s, unfolded nil]
  show "getWeather s w city st =
        (\<lparr>status = 200, body = GoNil\<rparr>,
         st\<lparr>trace := trace st @ [RedisGet (cacheKey w city), LogLine ''Serving from cache'']\<rparr>)"
    by (rule r)
  show "upstream_calls (new_events st (snd (getWeather s w city st))) = []"
    by (simp add: r new_events_def upstream_calls_def)
  show "cache_writes (new_events st (snd (getWeather s w city st))) = []"
    by (simp add: r new_events_def cache_writes_def)
  show "redis (snd (getWeather s w city st)) = redis st"
    by (simp add: r)
next
  assume a: "redis_Get (redis st) (cacheKey w city) = Inr cachedData
    \<and> json_Unmarshal w cachedData = OutOfRange e v"
  then have hit: "redis_Get (redis st) (cacheKey w city) = Inr cachedData"
    by simp
  have stored: "snd (Unmarshal_into w cachedData GoNil) = v"
    using a by (simp add: Unmarshal_into_def)
  show "getWeather s w city st =
        (\<lparr>status = 200, body = v\<rparr>,
         st\<lparr>trace := trace st @ [RedisGet (cacheKey w city), LogLine ''Serving from cache'']\<rparr>)"
    by (rule getWeather_hit [OF hit, of s, unfolded stored])
qed

theorem corrupt_cache_entry_answers_null_witness:
  "redis_Get (redis corrupt_cached) (cacheKey (stub_world upstream_refused) ''Boston'')
     = Inr ''not json''
   \<and> json_Unmarshal (stub_world upstream_refused) ''not json''
     = InvalidJSON ''invalid character 'o' in literal null (expecting 'u')''
   \<and> getWeather demo_service (stub_world upstream_refused) ''Boston'' corrupt_cached =
       (\<lparr>status = 200, body = GoNil\<rparr>,
        corrupt_cached\<lparr>trace := [RedisGet ''weather:boston'', LogLine ''Serving from cache'']\<rparr>)
   \<and> redis_Get (redis huge_cached) (cacheKey (stub_world upstream_refused) ''Boston'')
     = Inr huge_text
   \<and> json_Unmarshal (stub_world upstream_refused) huge_text
     = OutOfRange ''json: cannot unmarshal number 1e999 into Go value of type float64''
         (GoMap [(''temp'', GoNil)])
   \<and> getWeather demo_service (stub_world upstream_refused) ''Boston'' huge_cached =
       (\<lparr>status = 200, body = GoMap [(''temp'', GoNil)]\<rparr>,
        huge_cached\<lparr>trace := [RedisGet ''weather:boston'', LogLine ''Serving from cache'']\<rparr>)"
proof -
  have k: "cacheKey (stub_world upstream_refused) ''Boston'' = ''weather:boston''"
    by (rule cacheKey_Boston)
  have h1: "redis_Get (redis corrupt_cached) (cacheKey (stub_world upstream_refused) ''Boston'')
      = Inr ''not json''"
    unfolding k by (simp add: corrupt_cached_def empty_redis_def redis_Get_def)
  have j1: "json_Unmarshal (stub_world upstream_refused) ''not json''
     = InvalidJSON ''invalid character 'o' in literal null (expecting 'u')''"
    by (rule stub_Unmarshal_not_json)
  have t1: "trace corrupt_cached = []"
    by (simp add: corrupt_cached_def)
  from h1 j1 corrupt_cache_entry_answers_null
      [where st = corrupt_cached and w = "stub_world upstream_refused"
        and city = "''Boston''" and cachedData = "''not json''" and s = demo_service
        and e = "''invalid character 'o' in literal null (expecting 'u')''"]
  have "getWeather demo_service (stub_world upstream_refused) ''Boston'' corrupt_cached =
        (\<lparr>status = 200, body = GoNil\<rparr>,
         corrupt_cached\<lparr>trace := trace corrupt_cached @
           [RedisGet (cacheKey (stub_world upstream_refused) ''Boston''),
            LogLine ''Serving from cache'']\<rparr>)"
    by blast
  then have r1: "getWeather demo_service (stub_world upstream_refused) ''Boston'' corrupt_cached =
       (\<lparr>status = 200, body = GoNil\<rparr>,
        corrupt_cached\<lparr>trace := [RedisGet ''weather:boston'', LogLine ''Serving from cache'']\<rparr>)"
    by (simp add: k t1)
  have h2: "redis_Get (redis huge_cached) (cacheKey (stub_world upstream_refused) ''Boston'')
      = Inr huge_text"
    unfolding k by (simp add: huge_cached_def empty_redis_def redis_Get_def)
  have j2: "json_Unmarshal (stub_world upstream_refused) huge_text
     = OutOfRange ''json: cannot unmarshal number 1e999 into Go value of type float64''
         (GoMap [(''temp'', GoNil)])"
    by (rule stub_Unmarshal_huge)
  have t2: "trace huge_cached = []"
    by (simp add: huge_cached_def)
  from h2 j2 corrupt_cache_entry_answers_null
      [where st = huge_cached and w = "stub_world upstream_refused"
        and city = "''Boston''" and cachedData = huge_text and s = demo_service
        and e = "''json: cannot unmarshal number 1e999 into Go value of type float64''"
        and v = "GoMap [(''temp'', GoNil)]"]
  have "getWeather demo_service (stub_world upstream_refused) ''Boston'' huge_cached =
        (\<lparr>status = 200, body = GoMap [(''temp'', GoNil)]\<rparr>,
         huge_cached\<lparr>trace := trace huge_cached @
           [RedisGet (cacheKey (stub_world upstream_refused) ''Boston''),
            LogLine ''Serving from cache'']\<rparr>)"
    by blast
  then have r2: "getWeather demo_service (stub_world upstream_refused) ''Boston'' huge_cached =
       (\<lparr>status = 200, body = GoMap [(''temp'', GoNil)]\<rparr>,
        huge_cached\<lparr>trace := [RedisGet ''weather:boston'', LogLine ''Serving from cache'']\<rparr>)"
    by (simp add: k t2)
  show ?thesis
    by (intro conjI h1 j1 r1 h2 j2 r2)
qed

subsection \<open>Cache misses: the answer of the provider\<close>

text \<open>
  Claim C3, as the code has it. When the cache read returned no value and the provider
  answered, the answer is an error exactly when its status is not 200: a 200 with a body
  that decodes is answered with 200 and the decoded body, and any other status, the
  other 2xx included, is answered with that status and the body
  \<open>{"error": "Invalid city or API error"}\<close>.
\<close>

theorem status_other_than_200_is_error:
  "redis_Get (redis st) (cacheKey w city) = Inl err
   \<and> http_Get w (requestURL s city) = Inr resp \<longrightarrow>
     (StatusCode resp = 200 \<and> json_Decode w (Body resp) = Inr payload \<longrightarrow>
        fst (getWeather s w city st) = \<lparr>status = 200, body = payload\<rparr>)
     \<and> (StatusCode resp \<noteq> 200 \<longrightarrow>
        fst (getWeather s w city st) =
          \<lparr>status = StatusCode resp,
           body = GoMap [(''error'', GoString ''Invalid city or API error'')]\<rparr>)"
proof (intro impI conjI)
  assume a: "redis_Get (redis st) (cacheKey w city) = Inl err
   \<and> http_Get w (requestURL s city) = Inr resp"
  then have m: "getWeather s w city st =
      getWeather_miss s w city (cacheKey w city) (after_read (cacheKey w city) err st)"
    by (simp add: getWeather_no_hit)
  {
    assume "StatusCode resp = 200 \<and> json_Decode w (Body resp) = Inr payload"
    with a show "fst (getWeather s w city st) = \<lparr>status = 200, body = payload\<rparr>"
      unfolding m by (simp add: miss_success_response)
  }
  {
    assume "StatusCode resp \<noteq> 200"
    with a show "fst (getWeather s w city st) =
          \<lparr>status = StatusCode resp,
           body = GoMap [(''error'', GoString ''Invalid city or API error'')]\<rparr>"
      unfolding m by (simp add: miss_rejected)
  }
qed

theorem status_other_than_200_is_error_witness:
  "redis_Get (redis start_state) (cacheKey (stub_world (upstream_answers 404 boston_text)) ''Boston'')
     = Inl redis_Nil
   \<and> http_Get (stub_world (upstream_answers 404 boston_text)) (requestURL demo_service ''Boston'')
     = Inr \<lparr>StatusCode = 404, Body = boston_text\<rparr>
   \<and> fst (getWeather demo_service (stub_world (upstream_answers 404 boston_text)) ''Boston''
          start_state) =
       \<lparr>status = 404, body = GoMap [(''error'', GoString ''Invalid city or API error'')]\<rparr>
   \<and> redis_Get (redis start_state) (cacheKey (stub_world (upstream_answers 200 boston_text)) ''Boston'')
     = Inl redis_Nil
   \<and> http_Get (stub_world (upstream_answers 200 boston_text)) (requestURL demo_service ''Boston'')
     = Inr \<lparr>StatusCode = 200, Body = boston_text\<rparr>
   \<and> json_Decode (stub_world (upstream_answers 200 boston_text)) boston_text = Inr boston_payload
   \<and> fst (getWeather demo_service (stub_world (upstream_answers 200 boston_text)) ''Boston''
          start_state) =
       \<lparr>status = 200, body = boston_payload\<rparr>"
proof -
  have g: "redis_Get (redis start_state) (cacheKey w ''Boston'') = Inl redis_Nil" for w
    by (simp add: start_state_def empty_redis_def redis_Get_def)
  have u: "http_Get (stub_world (upstream_answers c boston_text)) (requestURL demo_service ''Boston'')
     = Inr \<lparr>StatusCode = c, Body = boston_text\<rparr>" for c
    by (simp add: stub_world_def upstream_answers_def)
  have j: "json_Decode (stub_world (upstream_answers 200 boston_text)) boston_text = Inr boston_payload"
    by (rule stub_Decode_boston)
  have r404: "fst (getWeather demo_service (stub_world (upstream_answers 404 boston_text)) ''Boston''
          start_state) =
       \<lparr>status = 404, body = GoMap [(''error'', GoString ''Invalid city or API error'')]\<rparr>"
    using g u [of 404] status_other_than_200_is_error
      [where st = start_state and w = "stub_world (upstream_answers 404 boston_text)"
        and city = "''Boston''" and err = redis_Nil and s = demo_service
        and resp = "\<lparr>StatusCode = 404, Body = boston_text\<rparr>"]
    by simp
  have r200: "fst (getWeather demo_service (stub_world (upstream_answers 200 boston_text)) ''Boston''
          start_state) = \<lparr>status = 200, body = boston_payload\<rparr>"
    using g u [of 200] j status_other_than_200_is_error
      [where st = start_state and w = "stub_world (upstream_answers 200 boston_text)"
        and city = "''Boston''" and err = redis_Nil and s = demo_service
        and resp = "\<lparr>StatusCode = 200, Body = boston_text\<rparr>" and payload = boston_payload]
    by simp
  show ?thesis
    by (intro conjI g u j r404 r200)
qed

text \<open>
  The claim as the specification states it, with the 2xx range, fails: a provider that
  answers 201 with a body that decodes gets the error answer, with status 201.
\<close>

theorem status_201_counterexample:
  "redis_Get (redis start_state) (cacheKey (stub_world (upstream_answers 201 boston_text)) ''Boston'')
     = Inl redis_Nil
   \<and> http_Get (stub_world (upstream_answers 201 boston_text)) (requestURL demo_service ''Boston'')
     = Inr \<lparr>StatusCode = 201, Body = boston_text\<rparr>
   \<and> (200 :: int) \<le> 201 \<and> (201 :: int) < 300
   \<and> json_Decode (stub_world (upstream_answers 201 boston_text)) boston_text = Inr boston_payload
   \<and> fst (getWeather demo_service (stub_world (upstream_answers 201 boston_text)) ''Boston''
          start_state) =
       \<lparr>status = 201, body = GoMap [(''error'', GoString ''Invalid city or API error'')]\<rparr>
   \<and> cache_writes (trace (snd (getWeather demo_service
          (stub_world (upstream_answers 201 boston_text)) ''Boston'' start_state))) = []"
proof -
  have g: "redis_Get (redis start_state)
      (cacheKey (stub_world (upstream_answers 201 boston_text)) ''Boston'') = Inl redis_Nil"
    by (simp add: start_state_def empty_redis_def redis_Get_def)
  have u: "http_Get (stub_world (upstream_answers 201 boston_text)) (requestURL demo_service ''Boston'')
     = Inr \<lparr>StatusCode = 201, Body = boston_text\<rparr>"
    by (simp add: stub_world_def upstream_answers_def)
  have j: "json_Decode (stub_world (upstream_answers 201 boston_text)) boston_text = Inr boston_payload"
    by (rule stub_Decode_boston)
  have r: "getWeather demo_service (stub_world (upstream_answers 201 boston_text)) ''Boston''
      start_state =
      (\<lparr>status = 201, body = GoMap [(''error'', GoString ''Invalid city or API error'')]\<rparr>,
       observe (HttpGet (requestURL demo_service ''Boston''))
         (after_read (cacheKey (stub_world (upstream_answers 201 boston_text)) ''Boston'')
            redis_Nil start_state))"
    unfolding getWeather_no_hit [OF g] using miss_rejected [OF u] by simp
  have t: "cache_writes (trace (snd (getWeather demo_service
          (stub_world (upstream_answers 201 boston_text)) ''Boston'' start_state))) = []"
    unfolding r by (simp add: after_read_def cache_writes_def start_state_def)
  have f: "fst (getWeather demo_service (stub_world (upstream_answers 201 boston_text)) ''Boston''
          start_state) =
       \<lparr>status = 201, body = GoMap [(''error'', GoString ''Invalid city or API error'')]\<rparr>"
    unfolding r by simp
  show ?thesis
    using g u j f t by simp
qed

text \<open>
  Claim C4. When the cache read returned no value and the provider fails, nothing is
  written to the cache (no \<open>SETEX\<close> is sent, the server is unchanged) and the body of
  the answer is \<open>{"error": message}\<close>: status 500 and \<open>Failed to fetch weather data\<close>
  when the provider cannot be reached, the status of the provider when that is not 200,
  status 500 when a 200 has a body that does not decode.
\<close>

theorem upstream_failure_writes_nothing:
  "redis_Get (redis st) (cacheKey w city) = Inl err \<longrightarrow>
     (http_Get w (requestURL s city) = Inl e \<longrightarrow>
        fst (getWeather s w city st) =
          \<lparr>status = 500, body = GoMap [(''error'', GoString ''Failed to fetch weather data'')]\<rparr>
        \<and> cache_writes (new_events st (snd (getWeather s w city st))) = []
        \<and> redis (snd (getWeather s w city st)) = redis st)
     \<and> (http_Get w (requestURL s city) = Inr resp \<and> StatusCode resp \<noteq> 200 \<longrightarrow>
        fst (getWeather s w city st) =
          \<lparr>status = StatusCode resp,
           body = GoMap [(''error'', GoString ''Invalid city or API error'')]\<rparr>
        \<and> cache_writes (new_events st (snd (getWeather s w city st))) = []
        \<and> redis (snd (getWeather s w city st)) = redis st)
     \<and> (http_Get w (requestURL s city) = Inr resp \<and> StatusCode resp = 200
         \<and> json_Decode w (Body resp) = Inl e \<longrightarrow>
        fst (getWeather s w city st) =
          \<lparr>status = 500, body = GoMap [(''error'', GoString ''Failed to parse weather data'')]\<rparr>
        \<and> cache_writes (new_events st (snd (getWeather s w city st))) = []
        \<and> redis (snd (getWeather s w city st)) = redis st)"
proof (intro impI)
  assume a: "redis_Get (redis st) (cacheKey w city) = Inl err"
  have m: "getWeather s w city st =
      getWeather_miss s w city (cacheKey w city) (after_read (cacheKey w city) err st)"
    using a by (rule getWeather_no_hit)
  have n: "cache_writes (new_events st (observe (HttpGet u) (after_read k err st))) = []" for u k
    by (simp add: new_events_def cache_writes_def after_read_def log_Printf_def)
  show "(http_Get w (requestURL s city) = Inl e \<longrightarrow>
        fst (getWeather s w city st) =
          \<lparr>status = 500, body = GoMap [(''error'', GoString ''Failed to fetch weather data'')]\<rparr>
        \<and> cache_writes (new_events st (snd (getWeather s w city st))) = []
        \<and> redis (snd (getWeather s w city st)) = redis st)
     \<and> (http_Get w (requestURL s city) = Inr resp \<and> StatusCode resp \<noteq> 200 \<longrightarrow>
        fst (getWeather s w city st) =
          \<lparr>status = StatusCode resp,
           body = GoMap [(''error'', GoString ''Invalid city or API error'')]\<rparr>
        \<and> cache_writes (new_events st (snd (getWeather s w city st))) = []
        \<and> redis (snd (getWeather s w city st)) = redis st)
     \<and> (http_Get w (requestURL s city) = Inr resp \<and> StatusCode resp = 200
         \<and> json_Decode w (Body resp) = Inl e \<longrightarrow>
        fst (getWeather s w city st) =
          \<lparr>status = 500, body = GoMap [(''error'', GoString ''Failed to parse weather data'')]\<rparr>
        \<and> cache_writes (new_events st (snd (getWeather s w city st))) = []
        \<and> redis (snd (getWeather s w city st)) = redis st)"
    unfolding m
    by (intro conjI impI; (elim conjE)?)
      (simp_all add: miss_unreachable miss_rejected miss_malformed n)
qed

theorem upstream_failure_writes_nothing_witness:
  "redis_Get (redis start_state) (cacheKey (stub_world upstream_refused) ''Boston'') = Inl redis_Nil
   \<and> http_Get (stub_world upstream_refused) (requestURL demo_service ''Boston'')
     = Inl ''dial tcp: connect: connection refused''
   \<and> fst (getWeather demo_service (stub_world upstream_refused) ''Boston'' start_state) =
       \<lparr>status = 500, body = GoMap [(''error'', GoString ''Failed to fetch weather data'')]\<rparr>
   \<and> redis (snd (getWeather demo_service (stub_world upstream_refused) ''Boston'' start_state))
     = empty_redis"
proof -
  have g: "redis_Get (redis start_state) (cacheKey (stub_world upstream_refused) ''Boston'')
      = Inl redis_Nil"
    by (simp add: start_state_def empty_redis_def redis_Get_def)
  have u: "http_Get (stub_world upstream_refused) (requestURL demo_service ''Boston'')
     = Inl ''dial tcp: connect: connection refused''"
    by (simp add: stub_world_def upstream_refused_def)
  have e: "redis start_state = empty_redis"
    by (simp add: start_state_def)
  from g u upstream_failure_writes_nothing
      [where st = start_state and w = "stub_world upstream_refused" and city = "''Boston''"
        and err = redis_Nil and s = demo_service
        and e = "''dial tcp: connect: connection refused''"]
  have "fst (getWeather demo_service (stub_world upstream_refused) ''Boston'' start_state) =
       \<lparr>status = 500, body = GoMap [(''error'', GoString ''Failed to fetch weather data'')]\<rparr>
    \<and> redis (snd (getWeather demo_service (stub_world upstream_refused) ''Boston'' start_state))
     = redis start_state"
    by blast
  with g u e show ?thesis
    by simp
qed

subsection \<open>Cache misses: the cache write\<close>

text \<open>
  Claim C5. When the cache read returned no value, the provider answered 200 with a body
  that decodes, and the decoded value serialises, the handler sends one \<open>SETEX\<close>: the
  cache key, the serialised value, 43200 seconds, which is the 12 hours of
  \<open>cacheTTL\<close>. When the server accepts it, the store afterwards is the store before
  with that one entry, expiring 43200 seconds after the clock of the write.
\<close>

theorem successful_fetch_writes_one_entry:
  "redis_Get (redis st) (cacheKey w city) = Inl err
   \<and> http_Get w (requestURL s city) = Inr resp \<and> StatusCode resp = 200
   \<and> json_Decode w (Body resp) = Inr payload \<and> json_Marshal w payload = Inr weatherJSON \<longrightarrow>
     cache_writes (new_events st (snd (getWeather s w city st))) =
       [RedisSetEx (cacheKey w city) weatherJSON 43200]
     \<and> sint cacheTTL = 12 * 60 * 60 * 1000000000
     \<and> formatSec cacheTTL = 43200
     \<and> fst (getWeather s w city st) = \<lparr>status = 200, body = payload\<rparr>
     \<and> (write_fault (redis st) = None \<longrightarrow>
          redis (snd (getWeather s w city st)) =
            (redis st)\<lparr>entries :=
              (entries (redis st))(cacheKey w city \<mapsto> (weatherJSON, clock (redis st) + 43200))\<rparr>)"
proof (intro impI)
  assume a: "redis_Get (redis st) (cacheKey w city) = Inl err
   \<and> http_Get w (requestURL s city) = Inr resp \<and> StatusCode resp = 200
   \<and> json_Decode w (Body resp) = Inr payload \<and> json_Marshal w payload = Inr weatherJSON"
  define key where "key = cacheKey w city"
  define st0 where "st0 = after_read key err st"
  have m: "getWeather s w city st = getWeather_miss s w city key st0"
    using a by (simp add: getWeather_no_hit key_def st0_def)
  have len: "new_events st (st0\<lparr>trace := trace st0 @ evs\<rparr>) =
      new_events st st0 @ evs" for evs
    by (simp add: new_events_def st0_def after_read_def log_Printf_def)
  have len': "new_events st (st0\<lparr>redis := r, trace := trace st0 @ evs\<rparr>) =
      new_events st st0 @ evs" for evs r
    by (simp add: new_events_def st0_def after_read_def log_Printf_def)
  have none: "cache_writes (new_events st st0) = []"
    by (simp add: new_events_def st0_def after_read_def log_Printf_def cache_writes_def)
  have writes: "cache_writes (new_events st (snd (getWeather_miss s w city key st0))) =
       [RedisSetEx key weatherJSON 43200]"
  proof (cases "write_fault (redis st0)")
    case None
    with a have "snd (getWeather_miss s w city key st0) =
      st0\<lparr>redis := (redis st0)\<lparr>entries :=
            (entries (redis st0))(key \<mapsto> (weatherJSON, clock (redis st0) + 43200))\<rparr>,
        trace := trace st0 @ [HttpGet (requestURL s city), RedisSetEx key weatherJSON 43200,
            LogLine ''Serving from API'']\<rparr>"
      by (simp add: miss_write_ok)
    then show ?thesis
      using none by (simp add: len' cache_writes_def)
  next
    case (Some e)
    with a have "snd (getWeather_miss s w city key st0) =
      st0\<lparr>trace := trace st0 @ [HttpGet (requestURL s city), RedisSetEx key weatherJSON 43200,
            LogLine (''Failed to cache weather data: '' @ e), LogLine ''Serving from API'']\<rparr>"
      by (simp add: miss_write_fails)
    then show ?thesis
      using none by (simp add: len cache_writes_def)
  qed
  have stored: "redis (snd (getWeather_miss s w city key st0)) =
            (redis st)\<lparr>entries :=
              (entries (redis st))(key \<mapsto> (weatherJSON, clock (redis st) + 43200))\<rparr>"
    if "write_fault (redis st) = None"
    using a that miss_write_ok [of w s city resp payload weatherJSON st0 key]
    by (simp add: st0_def)
  have resp: "fst (getWeather_miss s w city key st0) = \<lparr>status = 200, body = payload\<rparr>"
    using a by (simp add: miss_success_response)
  show "cache_writes (new_events st (snd (getWeather s w city st))) =
       [RedisSetEx (cacheKey w city) weatherJSON 43200]
     \<and> sint cacheTTL = 12 * 60 * 60 * 1000000000
     \<and> formatSec cacheTTL = 43200
     \<and> fst (getWeather s w city st) = \<lparr>status = 200, body = payload\<rparr>
     \<and> (write_fault (redis st) = None \<longrightarrow>
          redis (snd (getWeather s w city st)) =
            (redis st)\<lparr>entries :=
              (entries (redis st))(cacheKey w city \<mapsto> (weatherJSON, clock (redis st) + 43200))\<rparr>)"
    unfolding m using writes stored resp
    by (simp add: key_def cacheTTL_nanoseconds formatSec_cacheTTL)
qed

theorem successful_fetch_writes_one_entry_witness:
  "redis_Get (redis start_state) (cacheKey (stub_world (upstream_answers 200 boston_text)) ''Boston'')
     = Inl redis_Nil
   \<and> http_Get (stub_world (upstream_answers 200 boston_text)) (requestURL demo_service ''Boston'')
     = Inr \<lparr>StatusCode = 200, Body = boston_text\<rparr>
   \<and> json_Decode (stub_world (upstream_answers 200 boston_text)) boston_text = Inr boston_payload
   \<and> json_Marshal (stub_world (upstream_answers 200 boston_text)) boston_payload = Inr boston_text
   \<and> write_fault (redis start_state) = None
   \<and> cache_writes (new_events start_state (snd (getWeather demo_service
        (stub_world (upstream_answers 200 boston_text)) ''Boston'' start_state))) =
       [RedisSetEx ''weather:boston'' boston_text 43200]
   \<and> redis (snd (getWeather demo_service
        (stub_world (upstream_answers 200 boston_text)) ''Boston'' start_state)) =
       empty_redis\<lparr>entries := [''weather:boston'' \<mapsto> (boston_text, 43200)]\<rparr>"
proof -
  have g: "redis_Get (redis start_state)
      (cacheKey (stub_world (upstream_answers 200 boston_text)) ''Boston'') = Inl redis_Nil"
    by (simp add: start_state_def empty_redis_def redis_Get_def)
  have u: "http_Get (stub_world (upstream_answers 200 boston_text)) (requestURL demo_service ''Boston'')
     = Inr \<lparr>StatusCode = 200, Body = boston_text\<rparr>"
    by (simp add: stub_world_def upstream_answers_def)
  have j: "json_Decode (stub_world (upstream_answers 200 boston_text)) boston_text = Inr boston_payload"
    by (rule stub_Decode_boston)
  have m: "json_Marshal (stub_world (upstream_answers 200 boston_text)) boston_payload = Inr boston_text"
    by (rule stub_Marshal_boston)
  have f: "write_fault (redis start_state) = None"
    by (simp add: start_state_def empty_redis_def)
  have e: "(redis start_state)\<lparr>entries := (entries (redis start_state))
        (''weather:boston'' \<mapsto> (boston_text, clock (redis start_state) + 43200))\<rparr> =
      empty_redis\<lparr>entries := [''weather:boston'' \<mapsto> (boston_text, 43200)]\<rparr>"
    by (simp add: start_state_def empty_redis_def)
  note t = successful_fetch_writes_one_entry
      [where st = start_state and w = "stub_world (upstream_answers 200 boston_text)"
        and city = "''Boston''" and err = redis_Nil and s = demo_service
        and resp = "\<lparr>StatusCode = 200, Body = boston_text\<rparr>" and payload = boston_payload
        and weatherJSON = boston_text, unfolded cacheKey_Boston]
  have c: "cache_writes (new_events start_state (snd (getWeather demo_service
        (stub_world (upstream_answers 200 boston_text)) ''Boston'' start_state))) =
       [RedisSetEx ''weather:boston'' boston_text 43200]"
    using t g u j m by (simp add: cacheKey_Boston)
  have r: "redis (snd (getWeather demo_service
        (stub_world (upstream_answers 200 boston_text)) ''Boston'' start_state)) =
       empty_redis\<lparr>entries := [''weather:boston'' \<mapsto> (boston_text, 43200)]\<rparr>"
    using t g u j m f by (simp add: cacheKey_Boston e)
  show ?thesis
    by (intro conjI g u j m f c r)
qed





subsection \<open>Cache read errors\<close>

lemma new_events_after:
  assumes "trace st0 = trace st @ pre"
  shows "new_events st (snd (getWeather_miss s w city key st0)) =
     pre @ new_events st0 (snd (getWeather_miss s w city key st0))"
proof -
  obtain evs where e: "trace (snd (getWeather_miss s w city key st0)) = trace st0 @ evs"
    using miss_trace_extends by blast
  show ?thesis
    by (simp add: new_events_def e assms)
qed

text \<open>
  Claim C7. When the cache read fails with an error other than \<open>redis.Nil\<close>, the handler
  logs the error and runs the same code as on a miss: what it does after the read and the
  log line, the state of the server afterwards and the answer are those of the miss path,
  so the error does not reach the client, and a 200 of the provider with a body that
  decodes is answered with 200 and the decoded body.
\<close>

theorem cache_read_error_is_treated_as_miss:
  "(redis_Get (redis st) (cacheKey w city) = Inl (redis_Failure e) \<longrightarrow>
      getWeather s w city st =
        getWeather_miss s w city (cacheKey w city)
          (log_Printf ''Redis error: %v'' [e] (observe (RedisGet (cacheKey w city)) st))
      \<and> new_events st (snd (getWeather s w city st)) =
          RedisGet (cacheKey w city) # LogLine (''Redis error: '' @ e) #
          new_events (observe (RedisGet (cacheKey w city)) st)
            (snd (getWeather_miss s w city (cacheKey w city)
               (observe (RedisGet (cacheKey w city)) st)))
      \<and> redis (snd (getWeather s w city st)) =
          redis (snd (getWeather_miss s w city (cacheKey w city)
            (observe (RedisGet (cacheKey w city)) st)))
      \<and> fst (getWeather s w city st) =
          fst (getWeather_miss s w city (cacheKey w city)
            (observe (RedisGet (cacheKey w city)) st))
      \<and> (http_Get w (requestURL s city) = Inr resp \<and> StatusCode resp = 200
          \<and> json_Decode w (Body resp) = Inr payload \<longrightarrow>
          fst (getWeather s w city st) = \<lparr>status = 200, body = payload\<rparr>))
   \<and> (redis_Get (redis st) (cacheKey w city) = Inl redis_Nil \<longrightarrow>
      getWeather s w city st =
        getWeather_miss s w city (cacheKey w city) (observe (RedisGet (cacheKey w city)) st))"
proof (intro conjI impI)
  assume "redis_Get (redis st) (cacheKey w city) = Inl redis_Nil"
  then show "getWeather s w city st =
        getWeather_miss s w city (cacheKey w city) (observe (RedisGet (cacheKey w city)) st)"
    by (simp add: getWeather_no_hit after_read_def)
next
  assume a: "redis_Get (redis st) (cacheKey w city) = Inl (redis_Failure e)"
  define key where "key = cacheKey w city"
  define plain where "plain = observe (RedisGet key) st"
  define logged where "logged = log_Printf ''Redis error: %v'' [e] plain"
  have m: "getWeather s w city st = getWeather_miss s w city key logged"
    using a by (simp add: getWeather_no_hit after_read_def key_def plain_def logged_def)
  have r: "redis logged = redis plain"
    by (simp add: logged_def log_Printf_def)
  have t: "trace logged = trace st @ [RedisGet key, LogLine (''Redis error: '' @ e)]"
    by (simp add: logged_def plain_def log_Printf_def)
  have ev: "new_events st (snd (getWeather_miss s w city key logged)) =
      RedisGet key # LogLine (''Redis error: '' @ e) #
        new_events plain (snd (getWeather_miss s w city key plain))"
    using new_events_after [OF t, of s w city key]
      miss_new_events_independent [OF r, of s w city key]
    by simp
  show "getWeather s w city st =
        getWeather_miss s w city (cacheKey w city)
          (log_Printf ''Redis error: %v'' [e] (observe (RedisGet (cacheKey w city)) st))"
    using m by (simp add: key_def plain_def logged_def)
  show "new_events st (snd (getWeather s w city st)) =
          RedisGet (cacheKey w city) # LogLine (''Redis error: '' @ e) #
          new_events (observe (RedisGet (cacheKey w city)) st)
            (snd (getWeather_miss s w city (cacheKey w city)
               (observe (RedisGet (cacheKey w city)) st)))"
    unfolding m using ev by (simp add: key_def plain_def)
  show "redis (snd (getWeather s w city st)) =
          redis (snd (getWeather_miss s w city (cacheKey w city)
            (observe (RedisGet (cacheKey w city)) st)))"
    unfolding m using miss_redis_independent [OF r, of s w city key]
    by (simp add: key_def plain_def)
  show "fst (getWeather s w city st) =
          fst (getWeather_miss s w city (cacheKey w city)
            (observe (RedisGet (cacheKey w city)) st))"
    unfolding m using miss_response_independent [of s w city key logged plain]
    by (simp add: key_def plain_def)
  assume "http_Get w (requestURL s city) = Inr resp \<and> StatusCode resp = 200
          \<and> json_Decode w (Body resp) = Inr payload"
  then show "fst (getWeather s w city st) = \<lparr>status = 200, body = payload\<rparr>"
    unfolding m by (simp add: miss_success_response)
qed

theorem cache_read_error_is_treated_as_miss_witness:
  "redis_Get (redis redis_down) (cacheKey (stub_world (upstream_answers 200 boston_text)) ''Boston'')
     = Inl (redis_Failure ''dial tcp: i/o timeout'')
   \<and> http_Get (stub_world (upstream_answers 200 boston_text)) (requestURL demo_service ''Boston'')
     = Inr \<lparr>StatusCode = 200, Body = boston_text\<rparr>
   \<and> json_Decode (stub_world (upstream_answers 200 boston_text)) boston_text = Inr boston_payload
   \<and> fst (getWeather demo_service (stub_world (upstream_answers 200 boston_text)) ''Boston''
          redis_down) = \<lparr>status = 200, body = boston_payload\<rparr>"
proof -
  have g: "redis_Get (redis redis_down)
      (cacheKey (stub_world (upstream_answers 200 boston_text)) ''Boston'')
     = Inl (redis_Failure ''dial tcp: i/o timeout'')"
    by (simp add: redis_down_def empty_redis_def redis_Get_def)
  have u: "http_Get (stub_world (upstream_answers 200 boston_text))
      (requestURL demo_service ''Boston'') = Inr \<lparr>StatusCode = 200, Body = boston_text\<rparr>"
    by (simp add: stub_world_def upstream_answers_def)
  have j: "json_Decode (stub_world (upstream_answers 200 boston_text)) boston_text
      = Inr boston_payload"
    by (rule stub_Decode_boston)
  have h: "http_Get (stub_world (upstream_answers 200 boston_text))
        (requestURL demo_service ''Boston'') = Inr \<lparr>StatusCode = 200, Body = boston_text\<rparr>
      \<and> StatusCode \<lparr>StatusCode = 200, Body = boston_text\<rparr> = 200
      \<and> json_Decode (stub_world (upstream_answers 200 boston_text))
          (Body \<lparr>StatusCode = 200, Body = boston_text\<rparr>) = Inr boston_payload"
    using u j by simp
  have r: "fst (getWeather demo_service (stub_world (upstream_answers 200 boston_text)) ''Boston''
          redis_down) = \<lparr>status = 200, body = boston_payload\<rparr>"
    using g h cache_read_error_is_treated_as_miss
      [where st = redis_down and w = "stub_world (upstream_answers 200 boston_text)"
        and city = "''Boston''" and e = "''dial tcp: i/o timeout''" and s = demo_service
        and resp = "\<lparr>StatusCode = 200, Body = boston_text\<rparr>" and payload = boston_payload]
    by blast
  show ?thesis
    by (intro conjI g u j r)
qed

subsection \<open>Start-up\<close>

lemma Sprintf_Addr: "Sprintf ''%s:%s'' [host, port] = host @ '':'' @ port"
  by simp

lemma Sprintf_connect:
  "Sprintf ''Failed to connect to Redis: %v'' [e] = ''Failed to connect to Redis: '' @ e"
  by simp

text \<open>
  Claim C10, as the code has it. \<open>main\<close> stops in \<open>log.Fatal\<close>, before any request is
  served, when the \<open>.env\<close> file cannot be loaded, when the first \<open>PING\<close> fails, and when
  \<open>app.Listen\<close> cannot serve on the port; in every other case \<open>app.Listen\<close> serves. No
  configuration value is checked: a variable that is not set is read as the empty string,
  and the port is 3000 when \<open>PORT\<close> is empty.
\<close>

theorem startup_fatal_on_load_ping_or_listen:
  "(dotenv su = None \<longrightarrow> main su = Fatal ''Error loading .env file'')
   \<and> (dotenv su = Some envfile \<and> env = envfile ++ environ su
       \<and> ping su \<lparr>Addr = os_Getenv env ''REDIS_HOST'' @ '':'' @ os_Getenv env ''REDIS_PORT'',
                   Password = os_Getenv env ''REDIS_PASSWORD'', DB = 0\<rparr> = Some e \<longrightarrow>
       main su = Fatal (''Failed to connect to Redis: '' @ e))
   \<and> (dotenv su = Some envfile \<and> env = envfile ++ environ su
       \<and> ping su \<lparr>Addr = os_Getenv env ''REDIS_HOST'' @ '':'' @ os_Getenv env ''REDIS_PORT'',
                   Password = os_Getenv env ''REDIS_PASSWORD'', DB = 0\<rparr> = None
       \<and> listen su ('':'' @ (if os_Getenv env ''PORT'' = [] then ''3000''
                              else os_Getenv env ''PORT'')) = Some e \<longrightarrow>
       main su = Fatal e)
   \<and> (dotenv su = Some envfile \<and> env = envfile ++ environ su
       \<and> ping su \<lparr>Addr = os_Getenv env ''REDIS_HOST'' @ '':'' @ os_Getenv env ''REDIS_PORT'',
                   Password = os_Getenv env ''REDIS_PASSWORD'', DB = 0\<rparr> = None
       \<and> listen su ('':'' @ (if os_Getenv env ''PORT'' = [] then ''3000''
                              else os_Getenv env ''PORT'')) = None \<longrightarrow>
       main su =
         Listen
           \<lparr>config = \<lparr>WeatherAPIKey = os_Getenv env ''WEATHER_API_KEY'',
                       RedisHost = os_Getenv env ''REDIS_HOST'',
                       RedisPort = os_Getenv env ''REDIS_PORT'',
                       RedisPassword = os_Getenv env ''REDIS_PASSWORD''\<rparr>,
            redisClient =
              \<lparr>Addr = os_Getenv env ''REDIS_HOST'' @ '':'' @ os_Getenv env ''REDIS_PORT'',
               Password = os_Getenv env ''REDIS_PASSWORD'', DB = 0\<rparr>\<rparr>
           ('':'' @ (if os_Getenv env ''PORT'' = [] then ''3000'' else os_Getenv env ''PORT'')))
   \<and> (\<not> is_set su name \<and> dotenv su = Some envfile \<longrightarrow>
        os_Getenv (envfile ++ environ su) name = [])"
proof (intro conjI impI)
  assume "dotenv su = None"
  then show "main su = Fatal ''Error loading .env file''"
    by (simp add: main_def godotenv_Load_def)
next
  assume "dotenv su = Some envfile \<and> env = envfile ++ environ su
       \<and> ping su \<lparr>Addr = os_Getenv env ''REDIS_HOST'' @ '':'' @ os_Getenv env ''REDIS_PORT'',
                   Password = os_Getenv env ''REDIS_PASSWORD'', DB = 0\<rparr> = Some e"
  then show "main su = Fatal (''Failed to connect to Redis: '' @ e)"
    by (clarsimp simp add: main_def godotenv_Load_def Let_def Sprintf_Addr Sprintf_connect
        simp del: Sprintf.simps)
next
  assume "dotenv su = Some envfile \<and> env = envfile ++ environ su
       \<and> ping su \<lparr>Addr = os_Getenv env ''REDIS_HOST'' @ '':'' @ os_Getenv env ''REDIS_PORT'',
                   Password = os_Getenv env ''REDIS_PASSWORD'', DB = 0\<rparr> = None
       \<and> listen su ('':'' @ (if os_Getenv env ''PORT'' = [] then ''3000''
                              else os_Getenv env ''PORT'')) = Some e"
  then show "main su = Fatal e"
    by (clarsimp simp add: main_def godotenv_Load_def Let_def Sprintf_Addr
        simp del: Sprintf.simps split: if_splits)
next
  assume "dotenv su = Some envfile \<and> env = envfile ++ environ su
       \<and> ping su \<lparr>Addr = os_Getenv env ''REDIS_HOST'' @ '':'' @ os_Getenv env ''REDIS_PORT'',
                   Password = os_Getenv env ''REDIS_PASSWORD'', DB = 0\<rparr> = None
       \<and> listen su ('':'' @ (if os_Getenv env ''PORT'' = [] then ''3000''
                              else os_Getenv env ''PORT'')) = None"
  then show "main su =
         Listen
           \<lparr>config = \<lparr>WeatherAPIKey = os_Getenv env ''WEATHER_API_KEY'',
                       RedisHost = os_Getenv env ''REDIS_HOST'',
                       RedisPort = os_Getenv env ''REDIS_PORT'',
                       RedisPassword = os_Getenv env ''REDIS_PASSWORD''\<rparr>,
            redisClient =
              \<lparr>Addr = os_Getenv env ''REDIS_HOST'' @ '':'' @ os_Getenv env ''REDIS_PORT'',
               Password = os_Getenv env ''REDIS_PASSWORD'', DB = 0\<rparr>\<rparr>
           ('':'' @ (if os_Getenv env ''PORT'' = [] then ''3000'' else os_Getenv env ''PORT''))"
    by (clarsimp simp add: main_def godotenv_Load_def Let_def Sprintf_Addr
        simp del: Sprintf.simps split: if_splits)
next
  assume "\<not> is_set su name \<and> dotenv su = Some envfile"
  then show "os_Getenv (envfile ++ environ su) name = []"
    by (clarsimp simp add: is_set_def godotenv_Load_def os_Getenv_def map_add_def)
qed

theorem startup_fatal_on_load_ping_or_listen_witness:
  "dotenv no_dotenv = None
   \<and> main no_dotenv = Fatal ''Error loading .env file''
   \<and> main redis_unreachable =
       Fatal ''Failed to connect to Redis: dial tcp :0: connect: connection refused''
   \<and> main port_taken =
       Fatal ''failed to listen: listen tcp4 :3000: bind: address already in use''
   \<and> \<not> is_set redis_unreachable ''REDIS_HOST''
   \<and> os_Getenv ([''WEATHER_API_KEY'' \<mapsto> ''K3Y''] ++ environ redis_unreachable) ''REDIS_HOST'' = []"
proof -
  have d: "dotenv no_dotenv = None"
    by (simp add: no_dotenv_def)
  have f: "main no_dotenv = Fatal ''Error loading .env file''"
    using d startup_fatal_on_load_ping_or_listen [where su = no_dotenv] by blast
  have p: "dotenv redis_unreachable = Some [''WEATHER_API_KEY'' \<mapsto> ''K3Y'']
       \<and> [''WEATHER_API_KEY'' \<mapsto> ''K3Y''] ++ Map.empty =
           [''WEATHER_API_KEY'' \<mapsto> ''K3Y''] ++ environ redis_unreachable
       \<and> ping redis_unreachable
           \<lparr>Addr = os_Getenv ([''WEATHER_API_KEY'' \<mapsto> ''K3Y''] ++ Map.empty) ''REDIS_HOST'' @ '':'' @
              os_Getenv ([''WEATHER_API_KEY'' \<mapsto> ''K3Y''] ++ Map.empty) ''REDIS_PORT'',
            Password = os_Getenv ([''WEATHER_API_KEY'' \<mapsto> ''K3Y''] ++ Map.empty) ''REDIS_PASSWORD'',
            DB = 0\<rparr> = Some ''dial tcp :0: connect: connection refused''"
    by (simp add: redis_unreachable_def)
  have q: "main redis_unreachable =
       Fatal (''Failed to connect to Redis: '' @ ''dial tcp :0: connect: connection refused'')"
    using p startup_fatal_on_load_ping_or_listen
      [where su = redis_unreachable and envfile = "[''WEATHER_API_KEY'' \<mapsto> ''K3Y'']"
        and env = "[''WEATHER_API_KEY'' \<mapsto> ''K3Y''] ++ Map.empty"
        and e = "''dial tcp :0: connect: connection refused''"]
    by blast
  define vars :: "string \<rightharpoonup> string" where
    "vars = [''WEATHER_API_KEY'' \<mapsto> ''K3Y'', ''REDIS_HOST'' \<mapsto> ''localhost'',
             ''REDIS_PORT'' \<mapsto> ''6379'', ''REDIS_PASSWORD'' \<mapsto> ''secret'']"
  have l: "dotenv port_taken = Some vars
       \<and> vars ++ Map.empty = vars ++ environ port_taken
       \<and> ping port_taken
           \<lparr>Addr = os_Getenv (vars ++ Map.empty) ''REDIS_HOST'' @ '':'' @
              os_Getenv (vars ++ Map.empty) ''REDIS_PORT'',
            Password = os_Getenv (vars ++ Map.empty) ''REDIS_PASSWORD'', DB = 0\<rparr> = None
       \<and> listen port_taken
           ('':'' @ (if os_Getenv (vars ++ Map.empty) ''PORT'' = [] then ''3000''
                    else os_Getenv (vars ++ Map.empty) ''PORT'')) =
           Some ''failed to listen: listen tcp4 :3000: bind: address already in use''"
    by (simp add: port_taken_def vars_def)
  have r: "main port_taken =
       Fatal ''failed to listen: listen tcp4 :3000: bind: address already in use''"
    using l startup_fatal_on_load_ping_or_listen
      [where su = port_taken and envfile = vars and env = "vars ++ Map.empty"
        and e = "''failed to listen: listen tcp4 :3000: bind: address already in use''"]
    by blast
  have n: "\<not> is_set redis_unreachable ''REDIS_HOST''"
    by (simp add: is_set_def godotenv_Load_def redis_unreachable_def)
  have v: "dotenv redis_unreachable = Some [''WEATHER_API_KEY'' \<mapsto> ''K3Y'']"
    by (simp add: redis_unreachable_def)
  have o: "os_Getenv ([''WEATHER_API_KEY'' \<mapsto> ''K3Y''] ++ environ redis_unreachable)
      ''REDIS_HOST'' = []"
    using n v startup_fatal_on_load_ping_or_listen
      [where su = redis_unreachable and envfile = "[''WEATHER_API_KEY'' \<mapsto> ''K3Y'']"
        and name = "''REDIS_HOST''"]
    by blast
  show ?thesis
    using d f q r n o by simp
qed

text \<open>
  The claim as the specification states it fails: with the Redis variables set, the server
  reachable, the port free and no \<open>WEATHER_API_KEY\<close> anywhere, \<open>main\<close> does not stop;
  it serves with an empty API key on port 3000.
\<close>

theorem missing_api_key_counterexample:
  "\<not> is_set no_api_key ''WEATHER_API_KEY''
   \<and> \<not> is_Fatal (main no_api_key)
   \<and> main no_api_key =
       Listen
         \<lparr>config = \<lparr>WeatherAPIKey = [], RedisHost = ''localhost'', RedisPort = ''6379'',
                     RedisPassword = ''secret''\<rparr>,
          redisClient = \<lparr>Addr = ''localhost:6379'', Password = ''secret'', DB = 0\<rparr>\<rparr>
         '':3000''"
proof -
  have n: "\<not> is_set no_api_key ''WEATHER_API_KEY''"
    by (simp add: is_set_def godotenv_Load_def no_api_key_def)
  have m: "main no_api_key =
       Listen
         \<lparr>config = \<lparr>WeatherAPIKey = [], RedisHost = ''localhost'', RedisPort = ''6379'',
                     RedisPassword = ''secret''\<rparr>,
          redisClient = \<lparr>Addr = ''localhost:6379'', Password = ''secret'', DB = 0\<rparr>\<rparr>
         '':3000''"
    by (simp add: main_def godotenv_Load_def no_api_key_def Let_def os_Getenv_def)
  show ?thesis
    using n m by simp
qed

end

